theory Spec2Isabelle
  imports Complex_Main "HOL-Library.AList" "HOL-Library.Sublist"
begin

section \<open>Python values and exceptions\<close>

text \<open>
  The values that \<open>json.loads\<close> produces and that the handlers receive as \<open>params\<close>:
  \<open>None\<close>, booleans, integers, finite floating point numbers (every one of them is a
  rational, and Python compares numbers exactly), strings, lists and dictionaries.
  A \<open>string\<close> stands for a Python \<open>str\<close>, one list element per character; a dictionary
  is the list of its items in insertion order, read with \<open>map_of\<close>.
\<close>

datatype pyval =
    PNone
  | PBool bool
  | PInt int
  | PFloat rat
  | PStr string
  | PList "pyval list"
  | PDict "(string \<times> pyval) list"

text \<open>Python's truth value testing (\<open>if x\<close>, \<open>not x\<close>, \<open>x and y\<close>).\<close>

fun truthy :: "pyval \<Rightarrow> bool" where
  "truthy PNone = False"
| "truthy (PBool b) = b"
| "truthy (PInt n) = (n \<noteq> 0)"
| "truthy (PFloat q) = (q \<noteq> 0)"
| "truthy (PStr s) = (s \<noteq> [])"
| "truthy (PList xs) = (xs \<noteq> [])"
| "truthy (PDict kvs) = (kvs \<noteq> [])"

fun type_name :: "pyval \<Rightarrow> string" where
  "type_name PNone = ''NoneType''"
| "type_name (PBool b) = ''bool''"
| "type_name (PInt n) = ''int''"
| "type_name (PFloat q) = ''float''"
| "type_name (PStr s) = ''str''"
| "type_name (PList xs) = ''list''"
| "type_name (PDict kvs) = ''dict''"

text \<open>Lists and dictionaries cannot be dictionary keys.\<close>

fun hashable :: "pyval \<Rightarrow> bool" where
  "hashable (PList xs) = False"
| "hashable (PDict kvs) = False"
| "hashable v = True"

text \<open>
  Exceptions (subclasses of \<open>Exception\<close>) are values: the class and \<open>str(e)\<close>.
  Every function that can raise returns \<open>exn + 'a\<close>, with \<open>Inl\<close> the exception.
\<close>

datatype exn_kind =
    Exception
  | TypeError
  | AttributeError
  | KeyError
  | IndexError
  | ValueError
  | TimeoutError
  | JSONDecodeError
  | OtherError string

datatype exn = Exn (kind: exn_kind) (message: string)

definition quoted :: "string \<Rightarrow> string" where
  "quoted s = [CHR 0x27] @ s @ [CHR 0x27]"

definition no_attribute :: "pyval \<Rightarrow> string \<Rightarrow> exn" where
  "no_attribute v a =
     Exn AttributeError (quoted (type_name v) @ '' object has no attribute '' @ quoted a)"

definition unhashable :: "pyval \<Rightarrow> exn" where
  "unhashable v = Exn TypeError (''unhashable type: '' @ quoted (type_name v))"

text \<open>\<open>d.get(k, dflt)\<close> on a dictionary given by its items.\<close>

definition get :: "(string \<times> pyval) list \<Rightarrow> string \<Rightarrow> pyval \<Rightarrow> pyval" where
  "get kvs k dflt = (case map_of kvs k of None \<Rightarrow> dflt | Some v \<Rightarrow> v)"

text \<open>
  The numbers that \<open><\<close> compares with an \<open>int\<close>: \<open>bool\<close> is a subclass of \<open>int\<close>.
\<close>

fun numeric :: "pyval \<Rightarrow> rat option" where
  "numeric (PBool b) = Some (if b then 1 else 0)"
| "numeric (PInt n) = Some (of_int n)"
| "numeric (PFloat q) = Some q"
| "numeric v = None"

text \<open>
  \<open>min(v, 20)\<close>: the builtin keeps its first argument unless \<open>20 < v\<close>, and the
  comparison raises \<open>TypeError\<close> when \<open>v\<close> is not a number.
\<close>

definition min_20 :: "pyval \<Rightarrow> exn + pyval" where
  "min_20 v =
     (case numeric v of
        None \<Rightarrow> Inl (Exn TypeError
          (quoted ''<'' @ '' not supported between instances of '' @ quoted ''int''
           @ '' and '' @ quoted (type_name v)))
      | Some q \<Rightarrow> Inr (if 20 < q then PInt 20 else v))"


section \<open>Strings\<close>

text \<open>
  The \<open>str\<close> methods the handlers call, on characters with code points below 256
  (what a \<open>char\<close> holds): \<open>isspace\<close> and the line boundaries of \<open>splitlines\<close> in that
  range.
\<close>

definition isspace :: "char \<Rightarrow> bool" where
  "isspace c =
     (let n = (of_char c :: nat)
      in (9 \<le> n \<and> n \<le> 13) \<or> (28 \<le> n \<and> n \<le> 32) \<or> n = 133 \<or> n = 160)"

definition is_linebreak :: "char \<Rightarrow> bool" where
  "is_linebreak c =
     (let n = (of_char c :: nat)
      in (10 \<le> n \<and> n \<le> 13) \<or> (28 \<le> n \<and> n \<le> 30) \<or> n = 133)"

definition strip :: "string \<Rightarrow> string" where
  "strip s = rev (dropWhile isspace (rev (dropWhile isspace s)))"

text \<open>\<open>s.splitlines()\<close>: \<open>\r\n\<close> is one boundary, and a final boundary opens no line.\<close>

fun splitlines_from :: "string \<Rightarrow> string \<Rightarrow> string list" where
  "splitlines_from cur [] = (if cur = [] then [] else [cur])"
| "splitlines_from cur [c] = (if is_linebreak c then [cur] else [cur @ [c]])"
| "splitlines_from cur (c # d # cs) =
     (if c = CHR 0x0D \<and> d = CHR 0x0A then cur # splitlines_from [] cs
      else if is_linebreak c then cur # splitlines_from [] (d # cs)
      else splitlines_from (cur @ [c]) (d # cs))"

definition splitlines :: "string \<Rightarrow> string list" where
  "splitlines s = splitlines_from [] s"

text \<open>\<open>s.split(sep)\<close> for a non-empty separator, scanning from the left.\<close>

fun split_on :: "string \<Rightarrow> string \<Rightarrow> string \<Rightarrow> string list" where
  "split_on sep cur [] = [cur]"
| "split_on sep cur (c # cs) =
     (if sep \<noteq> [] \<and> prefix sep (c # cs)
      then cur # split_on sep [] (drop (length sep - 1) cs)
      else split_on sep (cur @ [c]) cs)"

definition split :: "string \<Rightarrow> string \<Rightarrow> string list" where
  "split s sep = split_on sep [] s"

text \<open>\<open>sub in s\<close> on strings.\<close>

fun contains :: "string \<Rightarrow> string \<Rightarrow> bool" where
  "contains sub [] = (sub = [])"
| "contains sub (c # cs) = (prefix sub (c # cs) \<or> contains sub cs)"

text \<open>\<open>sep.join(parts)\<close>.\<close>

fun join :: "string \<Rightarrow> string list \<Rightarrow> string" where
  "join sep [] = []"
| "join sep [p] = p"
| "join sep (p # q # ps) = p @ sep @ join sep (q # ps)"

text \<open>
  Lines 220 to 222 of \<open>fetch_webpage\<close>: strip every line, cut it at double spaces,
  strip the pieces, and join the non-empty ones with single spaces.
\<close>

definition normalize_text :: "string \<Rightarrow> string" where
  "normalize_text text0 =
     (let lines = map strip (splitlines text0);
          chunks = map strip (concat (map (\<lambda>line. split line ''  '') lines))
      in join '' '' (filter (\<lambda>chunk. chunk \<noteq> []) chunks))"

section \<open>Time\<close>

text \<open>
  A \<open>datetime\<close> is its position on the naive time line in microseconds, and the
  difference of two is a \<open>timedelta\<close>. A \<open>timedelta\<close> is normalised to days, seconds
  (from 0 to 86399) and microseconds; its attribute \<open>seconds\<close> is the middle
  component, not the whole duration.
\<close>

type_synonym datetime = int

definition timedelta_seconds :: "int \<Rightarrow> int" where
  "timedelta_seconds d = (d div 1000000) mod 86400"

definition seconds :: "int \<Rightarrow> int" where
  "seconds n = n * 1000000"

section \<open>The outside world\<close>

subsection \<open>The HTML document model\<close>

text \<open>
  A parsed page is what the handlers read from the \<open>BeautifulSoup\<close> object: the
  results of the queries they make, each in document order. Texts are what
  \<open>get_text(strip=True)\<close> returns.
\<close>

text \<open>A \<open>div\<close> of class \<open>result\<close>: its \<open>a.result__a\<close> (text and \<open>href\<close>) and its
  \<open>a.result__snippet\<close> (text), when it has them.\<close>

record result_div =
  rd_title :: "(string \<times> string option) option"
  rd_snippet :: "string option"

record meta_tag =
  mt_name :: "string option"
  mt_property :: "string option"
  mt_content :: "string option"

text \<open>An \<open>a\<close> element with an \<open>href\<close> attribute.\<close>

record anchor =
  a_href :: string
  a_text :: string

text \<open>
  An element matched by a CSS selector: its text and its attributes. The value of an
  attribute is a string, or a list of strings for the multi-valued ones (\<open>class\<close>,
  \<open>rel\<close>).
\<close>

record element =
  el_text :: string
  el_attrs :: "(string \<times> pyval) list"

record soup =
  result_divs :: "result_div list"  \<comment> \<open>\<open>find_all('div', class_='result')\<close>\<close>
  visible_text :: string  \<comment> \<open>\<open>get_text()\<close> once \<open>script\<close> and \<open>style\<close> are decomposed\<close>
  title_tag :: "string option"  \<comment> \<open>\<open>find('title')\<close>\<close>
  meta_tags :: "meta_tag list"  \<comment> \<open>\<open>find_all('meta')\<close>\<close>
  h1_tags :: "string list"  \<comment> \<open>\<open>find_all('h1')\<close>\<close>
  h2_tags :: "string list"  \<comment> \<open>\<open>find_all('h2')\<close>\<close>
  anchors :: "anchor list"  \<comment> \<open>\<open>find_all('a', href=True)\<close>\<close>
  select :: "pyval \<Rightarrow> exn + element list"  \<comment> \<open>\<open>select(selector)\<close>\<close>

text \<open>
  The argument \<open>limit\<close> of \<open>find_all\<close>: the search stops as soon as the number of
  matches found reaches the limit. A limit that is false (0, \<open>False\<close>) does not bound
  the search in \<open>bs4\<close> up to release 4.12, which is what is written here; later
  releases stop after the first match. The properties below use positive limits only.
\<close>

definition find_all_limit :: "pyval \<Rightarrow> 'a list \<Rightarrow> exn + 'a list" where
  "find_all_limit limit xs =
     (if \<not> truthy limit \<or> xs = [] then Inr xs
      else case numeric limit of
        None \<Rightarrow> Inl (Exn TypeError
          (quoted ''>='' @ '' not supported between instances of '' @ quoted ''int''
           @ '' and '' @ quoted (type_name limit)))
      | Some q \<Rightarrow> Inr (take (max 1 (nat \<lceil>q\<rceil>)) xs))"

text \<open>\<open>elem.get(attribute)\<close>: a lookup in the dictionary of attributes.\<close>

definition elem_get :: "element \<Rightarrow> pyval \<Rightarrow> exn + pyval" where
  "elem_get elem a =
     (if \<not> hashable a then Inl (unhashable a)
      else case a of
        PStr k \<Rightarrow> Inr (get (el_attrs elem) k PNone)
      | _ \<Rightarrow> Inr PNone)"

subsection \<open>The HTTP client, the clock and the libraries\<close>

record response =
  body :: string  \<comment> \<open>\<open>await response.text()\<close>\<close>
  final_url :: string  \<comment> \<open>\<open>str(response.url)\<close>, after redirects\<close>
  status :: int
  content_type :: string  \<comment> \<open>\<open>response.headers.get('Content-Type', '')\<close>\<close>

record parsed_url =
  scheme :: string
  netloc :: string
  query :: string

text \<open>
  What one call meets outside the process: the answers of the network, the clock
  readings, and the library functions (\<open>json\<close>, \<open>bs4\<close>, \<open>urllib.parse\<close>, \<open>str\<close> of a
  value that is not a string).
\<close>

record env =
  http_get :: "pyval \<Rightarrow> exn + response"
  http_post :: "string \<Rightarrow> (string \<times> pyval) list \<Rightarrow> exn + response"
  now :: datetime  \<comment> \<open>\<open>datetime.now()\<close> when the call first reads the clock\<close>
  now_done :: datetime  \<comment> \<open>\<open>datetime.now()\<close> once the page is fetched and parsed\<close>
  isoformat :: "datetime \<Rightarrow> string"
  json_loads :: "string \<Rightarrow> exn + pyval"
  parse_html :: "string \<Rightarrow> exn + soup"
  urljoin :: "string \<Rightarrow> string \<Rightarrow> exn + string"
  urlparse :: "string \<Rightarrow> exn + parsed_url"
  unquote :: "string \<Rightarrow> string"
  repr :: "pyval \<Rightarrow> string"

text \<open>\<open>str(v)\<close>, as the f-strings format a value.\<close>

definition py_str :: "env \<Rightarrow> pyval \<Rightarrow> string" where
  "py_str e v = (case v of PStr s \<Rightarrow> s | _ \<Rightarrow> repr e v)"

section \<open>Results, responses and the server\<close>

record search_hit =
  sh_title :: string
  sh_url :: string
  sh_snippet :: string
  sh_source :: string

datatype md_value = MdStr string | MdHeadings "string list" "string list"

record fetch_result =
  fr_url :: string
  fr_status :: int
  fr_content_type :: string
  fr_text :: "string option"
  fr_text_length :: "nat option"
  fr_metadata :: "(string \<times> md_value) list option"

record link =
  l_url :: string
  l_text :: string
  l_internal :: bool
  l_protocol :: string

record links_result =
  lr_url :: string
  lr_links :: "link list"
  lr_count :: nat
  lr_internal :: nat
  lr_external :: nat

record scrape_result =
  sc_url :: pyval
  sc_data :: "(string \<times> pyval) list"
  sc_fields_extracted :: nat

text \<open>
  The dictionary a tool returns: \<open>{'success': False, 'error': msg}\<close> is \<open>Failure msg\<close>,
  the others carry \<open>'success': True\<close> and the fields of the tool.
\<close>

datatype tool_result =
    Failure string
  | SearchOk pyval "search_hit list" nat
  | FetchOk fetch_result
  | LinksOk links_result
  | ScrapeOk scrape_result

fun success :: "tool_result \<Rightarrow> bool" where
  "success (Failure m) = False"
| "success r = True"

datatype traceback = Traceback

text \<open>
  The responses, with their fields in the order of the source: \<open>initialize\<close>
  (\<open>serverName\<close>, \<open>version\<close>, \<open>tools\<close>), \<open>tool_response\<close> (\<open>requestId\<close>, \<open>tool\<close>,
  \<open>result\<close>), \<open>tools_list\<close> (\<open>requestId\<close>, \<open>tools\<close>), \<open>pong\<close> (\<open>requestId\<close>,
  \<open>timestamp\<close>) and \<open>error\<close> (\<open>requestId\<close>, then \<open>code\<close>, \<open>message\<close> and \<open>details\<close> of
  the error).
\<close>

datatype message =
    Initialize string string "(string \<times> string) list"
  | ToolResponse pyval pyval tool_result
  | ToolsList pyval "(string \<times> string) list"
  | Pong pyval string
  | Error pyval string string "traceback option"

text \<open>The \<open>requestId\<close> of a response, when it has the field.\<close>

fun response_id :: "message \<Rightarrow> pyval option" where
  "response_id (Initialize name version ts) = None"
| "response_id (ToolResponse rid t r) = Some rid"
| "response_id (ToolsList rid ts) = Some rid"
| "response_id (Pong rid stamp) = Some rid"
| "response_id (Error rid code msg tb) = Some rid"

datatype tool = WebSearch | FetchWebpage | ExtractLinks | ScrapeData

datatype http_call = Get pyval | Post string "(string \<times> pyval) list"

text \<open>
  The fields of \<open>WebSearchMCP\<close>, with two observers added: \<open>out\<close>, the lines printed
  on standard output so far, and \<open>calls\<close>, the requests sent to the network so far.
\<close>

record server =
  server_name :: string
  tools :: "(string \<times> tool) list"
  session :: bool
  cache :: "string \<rightharpoonup> datetime \<times> tool_result"
  cache_ttl :: int
  out :: "message list"
  calls :: "http_call list"

definition init :: "string \<Rightarrow> server" where
  "init name =
     \<lparr>server_name = name, tools = [], session = False, cache = Map.empty,
      cache_ttl = 300, out = [], calls = []\<rparr>"

section \<open>The four tools\<close>

text \<open>
  A tool takes the world of the call, the server and \<open>params\<close>, and gives back what it
  returns or raises, with the server after the call. \<open>except Exception as e\<close> around
  the body of a tool turns what the body raises into a \<open>Failure\<close>.
\<close>

type_synonym tool_outcome = "(exn + tool_result) \<times> server"

definition except_exception :: "tool_outcome \<Rightarrow> tool_outcome" where
  "except_exception r =
     (case r of (Inl x, st) \<Rightarrow> (Inr (Failure (message x)), st) | (Inr v, st) \<Rightarrow> (Inr v, st))"

subsection \<open>\<open>web_search\<close>\<close>

definition search_url :: string where
  "search_url = ''https://html.duckduckgo.com/html/''"

definition search_params :: "pyval \<Rightarrow> (string \<times> pyval) list" where
  "search_params q =
     [(''q'', q), (''s'', PStr ''0''), (''dc'', PStr ''0''), (''v'', PStr ''l''),
      (''o'', PStr ''json'')]"

text \<open>Lines 149 to 153: the target of a redirect link of the search engine.\<close>

definition decode_redirect :: "env \<Rightarrow> string \<Rightarrow> exn + string" where
  "decode_redirect e url =
     (if prefix ''//duckduckgo.com/l/'' url then
        (case urlparse e url of
           Inl x \<Rightarrow> Inl x
         | Inr p \<Rightarrow>
             if contains ''uddg='' (query p) then
               (case split (query p) ''uddg='' of
                  _ # target # _ \<Rightarrow> Inr (unquote e (hd (split target ''&'')))
                | _ \<Rightarrow> Inl (Exn IndexError ''list index out of range''))
             else Inr url)
      else Inr url)"

fun search_results :: "env \<Rightarrow> result_div list \<Rightarrow> exn + search_hit list" where
  "search_results e [] = Inr []"
| "search_results e (d # ds) =
     (case rd_title d of
        None \<Rightarrow> search_results e ds
      | Some (title, href) \<Rightarrow>
          (case decode_redirect e (case href of None \<Rightarrow> [] | Some h \<Rightarrow> h) of
             Inl x \<Rightarrow> Inl x
           | Inr url \<Rightarrow>
               (case search_results e ds of
                  Inl x \<Rightarrow> Inl x
                | Inr hits \<Rightarrow>
                    Inr (\<lparr>sh_title = title, sh_url = url,
                          sh_snippet = (case rd_snippet d of None \<Rightarrow> [] | Some s \<Rightarrow> s),
                          sh_source = ''DuckDuckGo''\<rparr> # hits))))"

text \<open>The body of the \<open>try\<close>, lines 123 to 169.\<close>

definition search_page :: "env \<Rightarrow> server \<Rightarrow> pyval \<Rightarrow> pyval \<Rightarrow> tool_outcome" where
  "search_page e st q max_results =
     (if \<not> session st then (Inl (no_attribute PNone ''post''), st)
      else
        let st' = st\<lparr>calls := calls st @ [Post search_url (search_params q)]\<rparr>
        in case http_post e search_url (search_params q) of
             Inl x \<Rightarrow> (Inl x, st')
           | Inr resp \<Rightarrow>
          (case parse_html e (body resp) of
             Inl x \<Rightarrow> (Inl x, st')
           | Inr sp \<Rightarrow>
          (case find_all_limit max_results (result_divs sp) of
             Inl x \<Rightarrow> (Inl x, st')
           | Inr divs \<Rightarrow>
          (case search_results e divs of
             Inl x \<Rightarrow> (Inl x, st')
           | Inr hits \<Rightarrow> (Inr (SearchOk q hits (length hits)), st')))))"

text \<open>
  Lines 113 to 120 come before the \<open>try\<close>: \<open>params.get\<close>, then \<open>min\<close>, then the test
  of the query.
\<close>

definition web_search :: "env \<Rightarrow> server \<Rightarrow> pyval \<Rightarrow> tool_outcome" where
  "web_search e st params =
     (case params of
        PDict kvs \<Rightarrow>
          (let q = get kvs ''query'' (PStr '''')
           in case min_20 (get kvs ''maxResults'' (PInt 10)) of
                Inl x \<Rightarrow> (Inl x, st)
              | Inr max_results \<Rightarrow>
                  if \<not> truthy q then (Inr (Failure ''Query parameter is required''), st)
                  else except_exception (search_page e st q max_results))
      | _ \<Rightarrow> (Inl (no_attribute params ''get''), st))"

subsection \<open>\<open>fetch_webpage\<close>\<close>

text \<open>\<open>meta.get('name') or meta.get('property')\<close>\<close>

definition meta_key :: "meta_tag \<Rightarrow> string option" where
  "meta_key m =
     (case mt_name m of
        None \<Rightarrow> mt_property m
      | Some n \<Rightarrow> if n \<noteq> [] then Some n else mt_property m)"

fun add_meta_tags :: "meta_tag list \<Rightarrow> (string \<times> md_value) list \<Rightarrow> (string \<times> md_value) list" where
  "add_meta_tags [] md = md"
| "add_meta_tags (m # ms) md =
     add_meta_tags ms
       (case (meta_key m, mt_content m) of
          (Some n, Some c) \<Rightarrow> if n \<noteq> [] \<and> c \<noteq> [] then AList.update n (MdStr c) md else md
        | _ \<Rightarrow> md)"

text \<open>Lines 228 to 247.\<close>

definition page_metadata :: "soup \<Rightarrow> (string \<times> md_value) list" where
  "page_metadata sp =
     (let md = (case title_tag sp of None \<Rightarrow> [] | Some t \<Rightarrow> [(''title'', MdStr t)]);
          md = add_meta_tags (meta_tags sp) md
      in AList.update ''headings'' (MdHeadings (take 5 (h1_tags sp)) (take 5 (h2_tags sp))) md)"

definition cache_key :: "env \<Rightarrow> pyval \<Rightarrow> string" where
  "cache_key e url = ''fetch:'' @ py_str e url"

text \<open>Lines 194 to 197: the cached result, when the test of its age lets it through.\<close>

definition cached :: "env \<Rightarrow> server \<Rightarrow> string \<Rightarrow> tool_result option" where
  "cached e st key =
     (case cache st key of
        None \<Rightarrow> None
      | Some (cached_time, cached_data) \<Rightarrow>
          if timedelta_seconds (now e - cached_time) < cache_ttl st then Some cached_data
          else None)"

text \<open>The body of the \<open>try\<close>, lines 200 to 254.\<close>

definition fetch_page :: "env \<Rightarrow> server \<Rightarrow> pyval \<Rightarrow> pyval \<Rightarrow> pyval \<Rightarrow> tool_outcome" where
  "fetch_page e st url extract_text extract_metadata =
     (if \<not> session st then (Inl (no_attribute PNone ''get''), st)
      else
        let st' = st\<lparr>calls := calls st @ [Get url]\<rparr>
        in case http_get e url of
             Inl x \<Rightarrow> (Inl x, st')
           | Inr resp \<Rightarrow>
          (case parse_html e (body resp) of
             Inl x \<Rightarrow> (Inl x, st')
           | Inr sp \<Rightarrow>
               let result = \<lparr>fr_url = final_url resp, fr_status = status resp,
                             fr_content_type = content_type resp, fr_text = None,
                             fr_text_length = None, fr_metadata = None\<rparr>;
                   result =
                     (if truthy extract_text then
                        let text1 = normalize_text (visible_text sp)
                        in result\<lparr>fr_text := Some (take 10000 text1),
                                  fr_text_length := Some (length text1)\<rparr>
                      else result);
                   result =
                     (if truthy extract_metadata
                      then result\<lparr>fr_metadata := Some (page_metadata sp)\<rparr>
                      else result)
               in (Inr (FetchOk result),
                   st'\<lparr>cache := (cache st')(cache_key e url \<mapsto> (now_done e, FetchOk result))\<rparr>)))"

text \<open>Lines 256 to 266: \<open>except asyncio.TimeoutError\<close>, then \<open>except Exception as e\<close>.\<close>

definition fetch_except :: "tool_outcome \<Rightarrow> tool_outcome" where
  "fetch_except r =
     (case r of
        (Inl x, st) \<Rightarrow>
          if kind x = TimeoutError then (Inr (Failure ''Request timeout''), st)
          else (Inr (Failure (message x)), st)
      | (Inr v, st) \<Rightarrow> (Inr v, st))"

definition fetch_webpage :: "env \<Rightarrow> server \<Rightarrow> pyval \<Rightarrow> tool_outcome" where
  "fetch_webpage e st params =
     (case params of
        PDict kvs \<Rightarrow>
          (let url = get kvs ''url'' (PStr '''');
               extract_text = get kvs ''extractText'' (PBool True);
               extract_metadata = get kvs ''extractMetadata'' (PBool True)
           in if \<not> truthy url then (Inr (Failure ''URL parameter is required''), st)
              else case cached e st (cache_key e url) of
                     Some cached_data \<Rightarrow> (Inr cached_data, st)
                   | None \<Rightarrow> fetch_except (fetch_page e st url extract_text extract_metadata))
      | _ \<Rightarrow> (Inl (no_attribute params ''get''), st))"

subsection \<open>\<open>extract_links\<close>\<close>

text \<open>
  The loop of lines 292 to 314 over the anchors still to visit, with the set \<open>seen\<close>
  and the list \<open>links\<close> built so far.
\<close>

fun collect_links ::
  "env \<Rightarrow> string \<Rightarrow> parsed_url \<Rightarrow> pyval \<Rightarrow> pyval \<Rightarrow> anchor list \<Rightarrow> string set \<Rightarrow> link list
   \<Rightarrow> exn + link list" where
  "collect_links e base_url parsed_base internal_only external_only [] seen links = Inr links"
| "collect_links e base_url parsed_base internal_only external_only (a # rest) seen links =
     (case urljoin e base_url (a_href a) of
        Inl x \<Rightarrow> Inl x
      | Inr absolute_url \<Rightarrow>
     (case urlparse e absolute_url of
        Inl x \<Rightarrow> Inl x
      | Inr parsed \<Rightarrow>
          if absolute_url \<in> seen
          then collect_links e base_url parsed_base internal_only external_only rest seen links
          else
            let seen' = insert absolute_url seen;
                is_internal = (netloc parsed = netloc parsed_base)
            in if truthy internal_only \<and> \<not> is_internal
               then collect_links e base_url parsed_base internal_only external_only rest
                      seen' links
               else if truthy external_only \<and> is_internal
               then collect_links e base_url parsed_base internal_only external_only rest
                      seen' links
               else collect_links e base_url parsed_base internal_only external_only rest
                      seen'
                      (links @ [\<lparr>l_url = absolute_url, l_text = take 100 (a_text a),
                                 l_internal = is_internal, l_protocol = scheme parsed\<rparr>])))"

text \<open>The body of the \<open>try\<close>, lines 283 to 323.\<close>

definition links_page :: "env \<Rightarrow> server \<Rightarrow> pyval \<Rightarrow> pyval \<Rightarrow> pyval \<Rightarrow> tool_outcome" where
  "links_page e st url internal_only external_only =
     (if \<not> session st then (Inl (no_attribute PNone ''get''), st)
      else
        let st' = st\<lparr>calls := calls st @ [Get url]\<rparr>
        in case http_get e url of
             Inl x \<Rightarrow> (Inl x, st')
           | Inr resp \<Rightarrow>
          (let base_url = final_url resp
           in case parse_html e (body resp) of
                Inl x \<Rightarrow> (Inl x, st')
              | Inr sp \<Rightarrow>
             (case urlparse e base_url of
                Inl x \<Rightarrow> (Inl x, st')
              | Inr parsed_base \<Rightarrow>
             (case collect_links e base_url parsed_base internal_only external_only
                     (anchors sp) {} [] of
                Inl x \<Rightarrow> (Inl x, st')
              | Inr links \<Rightarrow>
                  (Inr (LinksOk
                     \<lparr>lr_url = base_url, lr_links = links, lr_count = length links,
                      lr_internal = length (filter l_internal links),
                      lr_external = length (filter (\<lambda>l. \<not> l_internal l) links)\<rparr>),
                   st')))))"

definition extract_links :: "env \<Rightarrow> server \<Rightarrow> pyval \<Rightarrow> tool_outcome" where
  "extract_links e st params =
     (case params of
        PDict kvs \<Rightarrow>
          (let url = get kvs ''url'' (PStr '''');
               internal_only = get kvs ''internalOnly'' (PBool False);
               external_only = get kvs ''externalOnly'' (PBool False)
           in if \<not> truthy url then (Inr (Failure ''URL parameter is required''), st)
              else except_exception (links_page e st url internal_only external_only))
      | _ \<Rightarrow> (Inl (no_attribute params ''get''), st))"

subsection \<open>\<open>scrape_data\<close>\<close>

text \<open>\<open>[elem.get(attribute) for elem in elements if elem.get(attribute)]\<close>\<close>

fun attr_values :: "pyval \<Rightarrow> element list \<Rightarrow> exn + pyval list" where
  "attr_values attribute [] = Inr []"
| "attr_values attribute (elem # elements) =
     (case elem_get elem attribute of
        Inl x \<Rightarrow> Inl x
      | Inr v \<Rightarrow>
          (case attr_values attribute elements of
             Inl x \<Rightarrow> Inl x
           | Inr vs \<Rightarrow> Inr (if truthy v then v # vs else vs)))"

definition texts :: "element list \<Rightarrow> pyval list" where
  "texts elements = map (\<lambda>elem. PStr (el_text elem)) elements"

text \<open>Lines 373 to 376: the list \<open>values\<close> of a selector given as a dictionary.\<close>

definition field_values :: "pyval \<Rightarrow> element list \<Rightarrow> exn + pyval list" where
  "field_values attribute elements =
     (if truthy attribute then attr_values attribute elements else Inr (texts elements))"

text \<open>
  One turn of the loop of lines 358 to 378: the value assigned to the key, or \<open>None\<close>
  when the turn assigns nothing.
\<close>

definition scrape_field :: "soup \<Rightarrow> pyval \<Rightarrow> exn + pyval option" where
  "scrape_field sp selector_config =
     (case selector_config of
        PStr s \<Rightarrow>
          (case select sp (PStr s) of
             Inl x \<Rightarrow> Inl x
           | Inr elements \<Rightarrow>
               if elements \<noteq> [] then Inr (Some (PList (texts elements))) else Inr None)
      | PDict cfg \<Rightarrow>
          (let selector = get cfg ''selector'' (PStr '''');
               attribute = get cfg ''attribute'' PNone;
               single = get cfg ''single'' (PBool False)
           in case select sp selector of
                Inl x \<Rightarrow> Inl x
              | Inr elements \<Rightarrow>
                  if elements \<noteq> [] then
                    (case field_values attribute elements of
                       Inl x \<Rightarrow> Inl x
                     | Inr vals \<Rightarrow>
                         Inr (Some (if truthy single \<and> vals \<noteq> [] then hd vals
                                    else PList vals)))
                  else Inr None)
      | _ \<Rightarrow> Inr None)"

fun scrape_fields ::
  "soup \<Rightarrow> (string \<times> pyval) list \<Rightarrow> (string \<times> pyval) list \<Rightarrow> exn + (string \<times> pyval) list" where
  "scrape_fields sp [] scraped_data = Inr scraped_data"
| "scrape_fields sp ((key, selector_config) # rest) scraped_data =
     (case scrape_field sp selector_config of
        Inl x \<Rightarrow> Inl x
      | Inr None \<Rightarrow> scrape_fields sp rest scraped_data
      | Inr (Some v) \<Rightarrow> scrape_fields sp rest (AList.update key v scraped_data))"

text \<open>The body of the \<open>try\<close>, lines 352 to 385.\<close>

definition scrape_page :: "env \<Rightarrow> server \<Rightarrow> pyval \<Rightarrow> pyval \<Rightarrow> tool_outcome" where
  "scrape_page e st url selectors =
     (if \<not> session st then (Inl (no_attribute PNone ''get''), st)
      else
        let st' = st\<lparr>calls := calls st @ [Get url]\<rparr>
        in case http_get e url of
             Inl x \<Rightarrow> (Inl x, st')
           | Inr resp \<Rightarrow>
          (case parse_html e (body resp) of
             Inl x \<Rightarrow> (Inl x, st')
           | Inr sp \<Rightarrow>
          (case selectors of
             PDict items \<Rightarrow>
               (case scrape_fields sp items [] of
                  Inl x \<Rightarrow> (Inl x, st')
                | Inr scraped_data \<Rightarrow>
                    (Inr (ScrapeOk
                       \<lparr>sc_url = url, sc_data = scraped_data,
                        sc_fields_extracted = length scraped_data\<rparr>),
                     st'))
           | _ \<Rightarrow> (Inl (no_attribute selectors ''items''), st'))))"

definition scrape_data :: "env \<Rightarrow> server \<Rightarrow> pyval \<Rightarrow> tool_outcome" where
  "scrape_data e st params =
     (case params of
        PDict kvs \<Rightarrow>
          (let url = get kvs ''url'' (PStr '''');
               selectors = get kvs ''selectors'' (PDict [])
           in if \<not> truthy url then (Inr (Failure ''URL parameter is required''), st)
              else if \<not> truthy selectors
              then (Inr (Failure ''Selectors parameter is required''), st)
              else except_exception (scrape_page e st url selectors))
      | _ \<Rightarrow> (Inl (no_attribute params ''get''), st))"

section \<open>The dispatch loop\<close>

text \<open>
  A step of the loop gives the server after it and the exception that escapes from
  it, if one does.
\<close>

type_synonym step = "server \<times> exn option"

text \<open>
  \<open>json.dumps\<close> encodes every response but one that holds a traceback object, on which
  it raises \<open>TypeError\<close>; \<open>send_response\<close> prints only what it has encoded.
\<close>

fun json_serializable :: "message \<Rightarrow> bool" where
  "json_serializable (Error request_id code msg (Some tb)) = False"
| "json_serializable m = True"

definition send_response :: "server \<Rightarrow> message \<Rightarrow> step" where
  "send_response st m =
     (if json_serializable m then (st\<lparr>out := out st @ [m]\<rparr>, None)
      else (st, Some (Exn TypeError ''Object of type traceback is not JSON serializable'')))"

text \<open>
  \<open>send_error(error, request_id)\<close>. The exceptions of the model have no attribute
  \<open>code\<close>, so the code is the default. \<open>tb\<close> is the attribute \<open>__traceback__\<close> of the
  error: \<open>None\<close> for an exception that was constructed and never raised, a traceback
  for one that an \<open>except\<close> clause caught.
\<close>

definition send_error :: "server \<Rightarrow> exn \<Rightarrow> traceback option \<Rightarrow> pyval \<Rightarrow> step" where
  "send_error st x tb request_id =
     send_response st (Error request_id ''INTERNAL_ERROR'' (message x) tb)"

definition get_tool_description :: "string \<Rightarrow> string" where
  "get_tool_description tool_name =
     (case map_of
        [(''webSearch'', ''Search the web using DuckDuckGo (no API key required)''),
         (''fetchWebpage'', ''Fetch and parse webpage content''),
         (''extractLinks'', ''Extract all links from a webpage''),
         (''scrapeData'', ''Scrape structured data from a webpage using CSS selectors'')]
        tool_name of
        None \<Rightarrow> ''No description available''
      | Some d \<Rightarrow> d)"

definition tool_listing :: "server \<Rightarrow> (string \<times> string) list" where
  "tool_listing st = map (\<lambda>(name, handler). (name, get_tool_description name)) (tools st)"

definition register_tool :: "string \<Rightarrow> tool \<Rightarrow> server \<Rightarrow> server" where
  "register_tool name handler st = st\<lparr>tools := AList.update name handler (tools st)\<rparr>"

definition initialize :: "server \<Rightarrow> step" where
  "initialize st =
     (let st = st\<lparr>session := True\<rparr>;
          st = register_tool ''webSearch'' WebSearch st;
          st = register_tool ''fetchWebpage'' FetchWebpage st;
          st = register_tool ''extractLinks'' ExtractLinks st;
          st = register_tool ''scrapeData'' ScrapeData st
      in send_response st (Initialize (server_name st) ''1.0.0'' (tool_listing st)))"

fun run_tool :: "tool \<Rightarrow> env \<Rightarrow> server \<Rightarrow> pyval \<Rightarrow> tool_outcome" where
  "run_tool WebSearch = web_search"
| "run_tool FetchWebpage = fetch_webpage"
| "run_tool ExtractLinks = extract_links"
| "run_tool ScrapeData = scrape_data"

text \<open>\<open>self.tools.get(name)\<close>: the keys of the registry are strings.\<close>

definition lookup_tool :: "server \<Rightarrow> pyval \<Rightarrow> tool option" where
  "lookup_tool st name = (case name of PStr n \<Rightarrow> map_of (tools st) n | _ \<Rightarrow> None)"

text \<open>The body of the \<open>try\<close> of \<open>handle_message\<close> once the message is decoded, lines 398 to 443.\<close>

definition dispatch :: "env \<Rightarrow> server \<Rightarrow> pyval \<Rightarrow> step" where
  "dispatch e st request =
     (case request of
        PDict kvs \<Rightarrow>
          (case map_of kvs ''type'' of
             None \<Rightarrow> (st, Some (Exn KeyError (quoted ''type'')))
           | Some ty \<Rightarrow>
               if ty = PStr ''tool'' \<and> truthy (get kvs ''tool'' PNone) then
                 (let name = get kvs ''tool'' PNone
                  in if \<not> hashable name then (st, Some (unhashable name))
                     else case lookup_tool st name of
                            None \<Rightarrow>
                              send_error st (Exn Exception (''Unknown tool: '' @ py_str e name))
                                None (get kvs ''id'' PNone)
                          | Some handler \<Rightarrow>
                              (case run_tool handler e st (get kvs ''params'' (PDict [])) of
                                 (Inl x, st') \<Rightarrow> (st', Some x)
                               | (Inr result, st') \<Rightarrow>
                                   send_response st'
                                     (ToolResponse (get kvs ''id'' PNone) name result)))
               else if ty = PStr ''list_tools'' then
                 send_response st (ToolsList (get kvs ''id'' PNone) (tool_listing st))
               else if ty = PStr ''ping'' then
                 send_response st (Pong (get kvs ''id'' PNone) (isoformat e (now e)))
               else
                 send_error st (Exn Exception (''Unknown request type: '' @ py_str e ty))
                   None (get kvs ''id'' PNone))
      | _ \<Rightarrow> (st, Some (no_attribute request ''get'')))"

text \<open>
  \<open>handle_message\<close>: both \<open>except\<close> clauses call \<open>send_error(e)\<close> on the exception they
  caught, with no request id; what \<open>send_error\<close> raises there leaves the method.
\<close>

definition handle_message :: "env \<Rightarrow> server \<Rightarrow> string \<Rightarrow> step" where
  "handle_message e st msg =
     (case (case json_loads e msg of
              Inl x \<Rightarrow> (st, Some x)
            | Inr request \<Rightarrow> dispatch e st request) of
        (st', None) \<Rightarrow> (st', None)
      | (st', Some x) \<Rightarrow> send_error st' x (Some Traceback) PNone)"

text \<open>
  The loop of \<open>run\<close> over the lines read before the end of the input, each with the
  world in which it is handled. Nothing in \<open>run\<close> catches an \<open>Exception\<close>: one that
  leaves \<open>handle_message\<close> ends the loop, and the lines after it are never read.
\<close>

fun serve :: "(env \<times> string) list \<Rightarrow> server \<Rightarrow> step" where
  "serve [] st = (st, None)"
| "serve ((e, line) # rest) st =
     (let msg = strip line
      in if msg = [] then serve rest st
         else case handle_message e st msg of
                (st', None) \<Rightarrow> serve rest st'
              | (st', Some x) \<Rightarrow> (st', Some x))"

definition shutdown :: "server \<Rightarrow> server" where
  "shutdown st = st\<lparr>session := False\<rparr>"

text \<open>
  \<open>run\<close>: the server when the process exits, and the exception that ended the loop if
  the end of the input did not.
\<close>

definition run :: "(env \<times> string) list \<Rightarrow> server \<Rightarrow> step" where
  "run inputs st =
     (case initialize st of
        (st1, Some x) \<Rightarrow> (st1, Some x)
      | (st1, None) \<Rightarrow>
          (case serve inputs st1 of (st2, fault) \<Rightarrow> (shutdown st2, fault)))"

section \<open>A concrete world\<close>

text \<open>
  A page, a network that serves it for every address, the request lines and the
  parameters used in the examples below.
\<close>

definition example_page :: soup where
  "example_page =
     \<lparr>result_divs = [],
      visible_text = ''Example  Domain'' @ [CHR 0x0A] @ ''  More information  '',
      title_tag = Some ''Example Domain'',
      meta_tags = [\<lparr>mt_name = Some ''viewport'', mt_property = None,
                     mt_content = Some ''width=device-width''\<rparr>],
      h1_tags = [''Example Domain''],
      h2_tags = [],
      anchors =
        [\<lparr>a_href = ''/about'', a_text = replicate 150 (CHR ''x'')\<rparr>,
         \<lparr>a_href = ''https://www.iana.org/domains'', a_text = ''More''\<rparr>,
         \<lparr>a_href = ''/about'', a_text = ''About''\<rparr>],
      select = (\<lambda>sel.
        if sel = PStr ''a'' then
          Inr [\<lparr>el_text = ''About'', el_attrs = [(''href'', PStr ''/about'')]\<rparr>,
               \<lparr>el_text = ''More'',
                 el_attrs = [(''href'', PStr ''https://www.iana.org/domains'')]\<rparr>]
        else if sel = PStr ''h1'' then Inr [\<lparr>el_text = ''Example Domain'', el_attrs = []\<rparr>]
        else Inr [])\<rparr>"

definition example_response :: response where
  "example_response =
     \<lparr>body = ''<html></html>'', final_url = ''https://example.com'', status = 200,
      content_type = ''text/html''\<rparr>"

definition search_line :: string where
  \<open>search_line =
     ''{"type":"tool","tool":"webSearch","id":"1","params":{"query":"isabelle","maxResults":null}}''\<close>

definition ping_line :: string where
  \<open>ping_line = ''{"type":"ping","id":"2"}''\<close>

definition unknown_tool_line :: string where
  \<open>unknown_tool_line = ''{"type":"tool","tool":"doesNotExist","id":"3"}''\<close>

definition tool_absent_line :: string where
  \<open>tool_absent_line = ''{"type":"tool","id":"4"}''\<close>

definition tool_null_line :: string where
  \<open>tool_null_line = ''{"type":"tool","tool":null,"id":"5"}''\<close>

definition tool_empty_line :: string where
  \<open>tool_empty_line = ''{"type":"tool","tool":"","id":"6"}''\<close>

definition example_requests :: "(string \<times> (string \<times> pyval) list) list" where
  "example_requests =
     [(search_line,
       [(''type'', PStr ''tool''), (''tool'', PStr ''webSearch''), (''id'', PStr ''1''),
        (''params'', PDict [(''query'', PStr ''isabelle''), (''maxResults'', PNone)])]),
      (ping_line, [(''type'', PStr ''ping''), (''id'', PStr ''2'')]),
      (unknown_tool_line,
       [(''type'', PStr ''tool''), (''tool'', PStr ''doesNotExist''), (''id'', PStr ''3'')]),
      (tool_absent_line, [(''type'', PStr ''tool''), (''id'', PStr ''4'')]),
      (tool_null_line, [(''type'', PStr ''tool''), (''tool'', PNone), (''id'', PStr ''5'')]),
      (tool_empty_line, [(''type'', PStr ''tool''), (''tool'', PStr ''''), (''id'', PStr ''6'')])]"

definition example_world :: env where
  "example_world =
     \<lparr>http_get = (\<lambda>url. Inr example_response),
      http_post = (\<lambda>url form. Inr example_response),
      now = 0,
      now_done = seconds 1,
      isoformat = (\<lambda>t. ''1970-01-01T00:00:00''),
      json_loads = (\<lambda>s. case map_of example_requests s of
                            None \<Rightarrow> Inl (Exn JSONDecodeError ''Expecting value'')
                          | Some kvs \<Rightarrow> Inr (PDict kvs)),
      parse_html = (\<lambda>html. Inr example_page),
      urljoin = (\<lambda>base href. Inr (if prefix ''https://'' href then href else base @ href)),
      urlparse = (\<lambda>url. Inr \<lparr>scheme = ''https'',
                                netloc = takeWhile (\<lambda>c. c \<noteq> CHR ''/'') (drop 8 url),
                                query = []\<rparr>),
      unquote = (\<lambda>s. s),
      repr = (\<lambda>v. ''?'')\<rparr>"

text \<open>The server once \<open>initialize\<close> has run.\<close>

definition started :: server where
  "started = fst (initialize (init ''web-search-mcp''))"

definition not_serializable :: exn where
  "not_serializable = Exn TypeError ''Object of type traceback is not JSON serializable''"

definition not_comparable :: "string \<Rightarrow> exn" where
  "not_comparable t =
     Exn TypeError (quoted ''<'' @ '' not supported between instances of '' @ quoted ''int''
       @ '' and '' @ quoted t)"

definition fetch_params :: "(string \<times> pyval) list" where
  "fetch_params = [(''url'', PStr ''https://example.com'')]"

definition first_result :: fetch_result where
  "first_result =
     \<lparr>fr_url = ''https://example.com'', fr_status = 200, fr_content_type = ''text/html'',
      fr_text = Some ''Example Domain More information'',
      fr_text_length = Some 31,
      fr_metadata =
        Some [(''title'', MdStr ''Example Domain''),
              (''viewport'', MdStr ''width=device-width''),
              (''headings'', MdHeadings [''Example Domain''] [])]\<rparr>"

definition first_fetch :: tool_outcome where
  "first_fetch = fetch_webpage example_world started (PDict fetch_params)"

text \<open>The same page with a text of 10001 characters.\<close>

definition long_page :: soup where
  "long_page = example_page\<lparr>visible_text := replicate 10001 (CHR ''x'')\<rparr>"

definition long_world :: env where
  "long_world = example_world\<lparr>parse_html := (\<lambda>html. Inr long_page)\<rparr>"

definition long_result :: fetch_result where
  "long_result =
     first_result\<lparr>fr_text := Some (replicate 10000 (CHR ''x'')), fr_text_length := Some 10001\<rparr>"

text \<open>
  The same address asked for again one day and ten seconds after the first fetch was
  stored, when the network no longer answers.
\<close>

definition next_day :: env where
  "next_day =
     example_world
       \<lparr>http_get := (\<lambda>url. Inl (Exn (OtherError ''ClientConnectorError'') ''Cannot connect'')),
        now := seconds 86411, now_done := seconds 86412\<rparr>"

text \<open>
  Four hundred seconds after the start, on a network where every request runs into
  the timeout.
\<close>

definition timed_out :: env where
  "timed_out =
     example_world
       \<lparr>http_get := (\<lambda>url. Inl (Exn TimeoutError [])),
        now := seconds 400, now_done := seconds 410\<rparr>"

text \<open>A page of 25 search results, and a search that asks for 50.\<close>

definition example_div :: result_div where
  "example_div =
     \<lparr>rd_title = Some (''Isabelle'', Some ''https://isabelle.in.tum.de/''),
      rd_snippet = Some ''A generic proof assistant''\<rparr>"

definition example_hit :: search_hit where
  "example_hit =
     \<lparr>sh_title = ''Isabelle'', sh_url = ''https://isabelle.in.tum.de/'',
      sh_snippet = ''A generic proof assistant'', sh_source = ''DuckDuckGo''\<rparr>"

definition results_page :: soup where
  "results_page = example_page\<lparr>result_divs := replicate 25 example_div\<rparr>"

definition search_world :: env where
  "search_world = example_world\<lparr>parse_html := (\<lambda>html. Inr results_page)\<rparr>"

definition search_params_50 :: "(string \<times> pyval) list" where
  "search_params_50 = [(''query'', PStr ''isabelle''), (''maxResults'', PInt 50)]"

definition after_post :: server where
  "after_post = started\<lparr>calls := [Post search_url (search_params (PStr ''isabelle''))]\<rparr>"

definition links_params :: "(string \<times> pyval) list" where
  "links_params = [(''url'', PStr ''https://example.com'')]"

definition links_params_both :: "(string \<times> pyval) list" where
  "links_params_both =
     [(''url'', PStr ''https://example.com''), (''internalOnly'', PBool True),
      (''externalOnly'', PBool True)]"

definition example_links :: links_result where
  "example_links =
     \<lparr>lr_url = ''https://example.com'',
      lr_links =
        [\<lparr>l_url = ''https://example.com/about'', l_text = replicate 100 (CHR ''x''),
           l_internal = True, l_protocol = ''https''\<rparr>,
         \<lparr>l_url = ''https://www.iana.org/domains'', l_text = ''More'',
           l_internal = False, l_protocol = ''https''\<rparr>],
      lr_count = 2, lr_internal = 1, lr_external = 1\<rparr>"

definition no_links :: links_result where
  "no_links =
     \<lparr>lr_url = ''https://example.com'', lr_links = [], lr_count = 0, lr_internal = 0,
      lr_external = 0\<rparr>"

text \<open>The server after one request for the page, sent from \<open>started\<close>.\<close>

definition after_get :: server where
  "after_get = started\<lparr>calls := [Get (PStr ''https://example.com'')]\<rparr>"

definition scrape_selectors :: "(string \<times> pyval) list" where
  "scrape_selectors =
     [(''links'', PStr ''a''),
      (''tables'', PStr ''table''),
      (''heading'', PDict [(''selector'', PStr ''h1''), (''single'', PBool True)]),
      (''target'', PDict [(''selector'', PStr ''a''), (''attribute'', PStr ''href''),
                          (''single'', PBool True)])]"

definition scrape_params :: "(string \<times> pyval) list" where
  "scrape_params = [(''url'', PStr ''https://example.com''), (''selectors'', PDict scrape_selectors)]"

definition example_scrape :: scrape_result where
  "example_scrape =
     \<lparr>sc_url = PStr ''https://example.com'',
      sc_data = [(''links'', PList [PStr ''About'', PStr ''More'']),
                 (''heading'', PStr ''Example Domain''),
                 (''target'', PStr ''/about'')],
      sc_fields_extracted = 3\<rparr>"

text \<open>A field that asks for the first \<open>data-id\<close> of the anchors, none of which has one.\<close>

definition scrape_params_data_id :: "(string \<times> pyval) list" where
  "scrape_params_data_id =
     [(''url'', PStr ''https://example.com''),
      (''selectors'',
       PDict [(''id'', PDict [(''selector'', PStr ''a''), (''attribute'', PStr ''data-id''),
                              (''single'', PBool True)])])]"

section \<open>Evaluating the concrete world\<close>

lemma started_eq:
  "started =
     \<lparr>server_name = ''web-search-mcp'',
      tools = [(''webSearch'', WebSearch), (''fetchWebpage'', FetchWebpage),
               (''extractLinks'', ExtractLinks), (''scrapeData'', ScrapeData)],
      session = True, cache = Map.empty, cache_ttl = 300,
      out = [Initialize ''web-search-mcp'' ''1.0.0''
               [(''webSearch'', ''Search the web using DuckDuckGo (no API key required)''),
                (''fetchWebpage'', ''Fetch and parse webpage content''),
                (''extractLinks'', ''Extract all links from a webpage''),
                (''scrapeData'', ''Scrape structured data from a webpage using CSS selectors'')]],
      calls = []\<rparr>"
  by (simp add: started_def init_def initialize_def register_tool_def tool_listing_def
      get_tool_description_def send_response_def)

lemma initialize_started: "initialize (init ''web-search-mcp'') = (started, None)"
  by (simp add: started_def init_def initialize_def register_tool_def tool_listing_def
      get_tool_description_def send_response_def)

lemma strip_search_line: "strip search_line = search_line"
  by (simp add: strip_def search_line_def isspace_def)

lemma search_line_nonempty: "search_line \<noteq> []"
  by (simp add: search_line_def)

lemma loads_search_line:
  "json_loads example_world search_line =
     Inr (PDict [(''type'', PStr ''tool''), (''tool'', PStr ''webSearch''), (''id'', PStr ''1''),
                 (''params'', PDict [(''query'', PStr ''isabelle''), (''maxResults'', PNone)])])"
  by (simp add: example_world_def example_requests_def)

lemma loads_unknown_tool_line:
  "json_loads example_world unknown_tool_line =
     Inr (PDict [(''type'', PStr ''tool''), (''tool'', PStr ''doesNotExist''), (''id'', PStr ''3'')])"
  by (simp add: example_world_def example_requests_def search_line_def ping_line_def
      unknown_tool_line_def)

lemma loads_tool_absent_line:
  "json_loads example_world tool_absent_line =
     Inr (PDict [(''type'', PStr ''tool''), (''id'', PStr ''4'')])"
  by (simp add: example_world_def example_requests_def search_line_def ping_line_def
      unknown_tool_line_def tool_absent_line_def)

lemma loads_tool_null_line:
  "json_loads example_world tool_null_line =
     Inr (PDict [(''type'', PStr ''tool''), (''tool'', PNone), (''id'', PStr ''5'')])"
  by (simp add: example_world_def example_requests_def search_line_def ping_line_def
      unknown_tool_line_def tool_absent_line_def tool_null_line_def)

lemma loads_tool_empty_line:
  "json_loads example_world tool_empty_line =
     Inr (PDict [(''type'', PStr ''tool''), (''tool'', PStr ''''), (''id'', PStr ''6'')])"
  by (simp add: example_world_def example_requests_def search_line_def ping_line_def
      unknown_tool_line_def tool_absent_line_def tool_null_line_def tool_empty_line_def)

lemma handle_search_line:
  "handle_message example_world started search_line = (started, Some not_serializable)"
  by (simp add: loads_search_line started_eq handle_message_def dispatch_def lookup_tool_def
      web_search_def get_def min_20_def send_error_def send_response_def not_serializable_def)

section \<open>The dispatch loop and the registry\<close>

text \<open>
  C9. A request of type \<open>tool\<close> that names a tool, with a non-empty name that is not in
  the registry: \<open>handle_message\<close> prints exactly one response, the error
  \<open>Unknown tool: <name>\<close> with the id of the request, raises nothing, and leaves the
  rest of the server as it was: no tool has run, no request went to the network.
\<close>

theorem unknown_tool_error:
  assumes "json_loads e msg = Inr (PDict kvs)"
    and "map_of kvs ''type'' = Some (PStr ''tool'')"
    and "map_of kvs ''tool'' = Some (PStr name)"
    and "name \<noteq> []"
    and "map_of (tools st) name = None"
  shows "handle_message e st msg =
     (st\<lparr>out := out st @ [Error (get kvs ''id'' PNone) ''INTERNAL_ERROR''
                             (''Unknown tool: '' @ name) None]\<rparr>,
      None)"
  using assms
  by (simp add: handle_message_def dispatch_def get_def lookup_tool_def send_error_def
      send_response_def py_str_def)

theorem unknown_tool_error_witness:
  "json_loads example_world unknown_tool_line =
     Inr (PDict [(''type'', PStr ''tool''), (''tool'', PStr ''doesNotExist''), (''id'', PStr ''3'')])
   \<and> map_of (tools started) ''doesNotExist'' = None
   \<and> handle_message example_world started unknown_tool_line =
       (started\<lparr>out := out started @ [Error (PStr ''3'') ''INTERNAL_ERROR''
                                         ''Unknown tool: doesNotExist'' None]\<rparr>,
        None)"
  using unknown_tool_error [of example_world unknown_tool_line
      "[(''type'', PStr ''tool''), (''tool'', PStr ''doesNotExist''), (''id'', PStr ''3'')]"
      "''doesNotExist''" started]
  by (simp add: loads_unknown_tool_line started_eq get_def)

text \<open>
  C10. A request of type \<open>tool\<close> whose field \<open>tool\<close> is absent, \<open>null\<close> or the empty
  string: \<open>handle_message\<close> prints exactly one response, the error
  \<open>Unknown request type: tool\<close> with the id of the request, raises nothing and leaves
  the rest of the server as it was.
\<close>

theorem tool_without_name_error:
  assumes "json_loads e msg = Inr (PDict kvs)"
    and "map_of kvs ''type'' = Some (PStr ''tool'')"
    and "map_of kvs ''tool'' = None \<or> map_of kvs ''tool'' = Some PNone
         \<or> map_of kvs ''tool'' = Some (PStr '''')"
  shows "handle_message e st msg =
     (st\<lparr>out := out st @ [Error (get kvs ''id'' PNone) ''INTERNAL_ERROR''
                             ''Unknown request type: tool'' None]\<rparr>,
      None)"
  using assms
  by (auto simp add: handle_message_def dispatch_def get_def send_error_def send_response_def
      py_str_def)

theorem tool_without_name_error_witness:
  "handle_message example_world started tool_absent_line =
     (started\<lparr>out := out started @ [Error (PStr ''4'') ''INTERNAL_ERROR''
                                       ''Unknown request type: tool'' None]\<rparr>, None)
   \<and> handle_message example_world started tool_null_line =
     (started\<lparr>out := out started @ [Error (PStr ''5'') ''INTERNAL_ERROR''
                                       ''Unknown request type: tool'' None]\<rparr>, None)
   \<and> handle_message example_world started tool_empty_line =
     (started\<lparr>out := out started @ [Error (PStr ''6'') ''INTERNAL_ERROR''
                                       ''Unknown request type: tool'' None]\<rparr>, None)"
  using tool_without_name_error [of example_world tool_absent_line
      "[(''type'', PStr ''tool''), (''id'', PStr ''4'')]" started]
    tool_without_name_error [of example_world tool_null_line
      "[(''type'', PStr ''tool''), (''tool'', PNone), (''id'', PStr ''5'')]" started]
    tool_without_name_error [of example_world tool_empty_line
      "[(''type'', PStr ''tool''), (''tool'', PStr ''''), (''id'', PStr ''6'')]" started]
  by (simp add: loads_tool_absent_line loads_tool_null_line loads_tool_empty_line get_def)

text \<open>
  What \<open>handle_message\<close> prints: when the body of its \<open>try\<close> raises nothing,
  exactly one response, with the id of the request; when the body raises, or the
  message cannot be decoded, nothing, and the \<open>TypeError\<close> of \<open>json.dumps\<close> leaves
  the method. The tools print nothing themselves.
\<close>

lemma fetch_webpage_out: "fetch_webpage e st p = (r, st') \<Longrightarrow> out st' = out st"
  by (auto simp add: fetch_webpage_def fetch_page_def fetch_except_def Let_def
      split: pyval.splits if_splits option.splits sum.splits)

lemma web_search_out: "web_search e st p = (r, st') \<Longrightarrow> out st' = out st"
  by (auto simp add: web_search_def search_page_def except_exception_def Let_def
      split: pyval.splits if_splits option.splits sum.splits)

lemma extract_links_out: "extract_links e st p = (r, st') \<Longrightarrow> out st' = out st"
  by (auto simp add: extract_links_def links_page_def except_exception_def Let_def
      split: pyval.splits if_splits option.splits sum.splits)

lemma scrape_data_out: "scrape_data e st p = (r, st') \<Longrightarrow> out st' = out st"
  by (auto simp add: scrape_data_def scrape_page_def except_exception_def Let_def
      split: pyval.splits if_splits option.splits sum.splits)

lemma run_tool_out: "run_tool t e st p = (r, st') \<Longrightarrow> out st' = out st"
  by (cases t) (auto dest: fetch_webpage_out web_search_out extract_links_out scrape_data_out)

lemma dispatch_one_response:
  assumes "dispatch e st (PDict kvs) = (st', None)"
  shows "\<exists>m. out st' = out st @ [m] \<and> response_id m = Some (get kvs ''id'' PNone)"
  using assms
  by (auto simp add: dispatch_def send_error_def send_response_def Let_def
      split: option.splits if_splits sum.splits prod.splits dest: run_tool_out)

lemma dispatch_raises:
  assumes "dispatch e st request = (st', Some x)"
  shows "out st' = out st"
  using assms
  by (auto simp add: dispatch_def send_error_def send_response_def Let_def
      split: pyval.splits option.splits if_splits sum.splits prod.splits dest: run_tool_out)

lemma handle_message_returns:
  assumes "json_loads e msg = Inr (PDict kvs)" and "dispatch e st (PDict kvs) = (st', None)"
  shows "handle_message e st msg = (st', None)
       \<and> (\<exists>m. out st' = out st @ [m] \<and> response_id m = Some (get kvs ''id'' PNone))"
  using assms dispatch_one_response [OF assms(2)] by (simp add: handle_message_def)

lemma handle_message_raises:
  assumes "json_loads e msg = Inl x
    \<or> (\<exists>request y. json_loads e msg = Inr request \<and> dispatch e st request = (st', Some y))"
  shows "\<exists>st''. handle_message e st msg = (st'', Some not_serializable) \<and> out st'' = out st"
  using assms
  by (auto simp add: handle_message_def send_error_def send_response_def not_serializable_def
      dest: dispatch_raises)

text \<open>
  C3. The request \<open>search_line\<close> is decodable and carries a type and an id, and it gets
  no response: \<open>min\<close> raises in \<open>web_search\<close>, the \<open>except\<close> clause of \<open>handle_message\<close>
  calls \<open>send_error\<close> on the caught exception, \<open>json.dumps\<close> raises on its traceback
  before anything is printed, and the exception ends the loop. After a run on this
  line and a \<open>ping\<close>, the output holds the announcement of \<open>initialize\<close> and nothing
  else.
\<close>

theorem request_without_response:
  "handle_message example_world started search_line = (started, Some not_serializable)
   \<and> run [(example_world, search_line), (example_world, ping_line)] (init ''web-search-mcp'')
       = (shutdown started, Some not_serializable)
   \<and> out (shutdown started) = [Initialize ''web-search-mcp'' ''1.0.0'' (tool_listing started)]"
proof (intro conjI)
  show "handle_message example_world started search_line = (started, Some not_serializable)"
    by (rule handle_search_line)
  show "run [(example_world, search_line), (example_world, ping_line)] (init ''web-search-mcp'')
       = (shutdown started, Some not_serializable)"
    by (simp add: run_def initialize_started strip_search_line handle_search_line
        search_line_nonempty)
  show "out (shutdown started) = [Initialize ''web-search-mcp'' ''1.0.0'' (tool_listing started)]"
    by (simp add: shutdown_def started_eq tool_listing_def get_tool_description_def)
qed

section \<open>\<open>web_search\<close>\<close>

text \<open>
  C2. On the parameters \<open>{"query": "isabelle", "maxResults": null}\<close> the tool
  \<open>web_search\<close> returns no result: \<open>min(None, 20)\<close> raises \<open>TypeError\<close> before the \<open>try\<close>
  is entered, in every world and every state of the server. Sent as a request, the
  fault leaves the dispatch loop, which stops before it reads the next line.
\<close>

theorem web_search_raises:
  "web_search e st (PDict [(''query'', PStr ''isabelle''), (''maxResults'', PNone)])
     = (Inl (not_comparable ''NoneType''), st)
   \<and> serve [(example_world, search_line), (example_world, ping_line)] started
     = (started, Some not_serializable)"
proof
  show "web_search e st (PDict [(''query'', PStr ''isabelle''), (''maxResults'', PNone)])
     = (Inl (not_comparable ''NoneType''), st)"
    by (simp add: web_search_def get_def min_20_def not_comparable_def)
  show "serve [(example_world, search_line), (example_world, ping_line)] started
     = (started, Some not_serializable)"
    by (simp add: strip_search_line handle_search_line search_line_nonempty)
qed

text \<open>The other three tools return a result on every dictionary of parameters.\<close>

lemma except_exception_returns: "\<exists>v st'. except_exception p = (Inr v, st')"
  by (cases p) (auto simp add: except_exception_def split: sum.splits)

lemma fetch_except_returns: "\<exists>v st'. fetch_except p = (Inr v, st')"
  by (cases p) (auto simp add: fetch_except_def split: sum.splits)

lemma fetch_webpage_returns: "\<exists>v st'. fetch_webpage e st (PDict kvs) = (Inr v, st')"
  using fetch_except_returns by (auto simp add: fetch_webpage_def Let_def split: option.splits)

lemma extract_links_returns: "\<exists>v st'. extract_links e st (PDict kvs) = (Inr v, st')"
  using except_exception_returns by (auto simp add: extract_links_def Let_def)

lemma scrape_data_returns: "\<exists>v st'. scrape_data e st (PDict kvs) = (Inr v, st')"
  using except_exception_returns by (auto simp add: scrape_data_def Let_def)

lemma except_exception_Inr:
  "except_exception p = (Inr v, st') \<Longrightarrow> success v \<Longrightarrow> p = (Inr v, st')"
  by (cases p) (auto simp add: except_exception_def split: sum.splits)

text \<open>A successful search went through the network, the parser and the loop.\<close>

lemma search_results_length: "search_results e divs = Inr hits \<Longrightarrow> length hits \<le> length divs"
proof (induction divs arbitrary: hits)
  case Nil
  then show ?case by simp
next
  case (Cons d ds)
  then show ?case
    by (fastforce split: option.splits sum.splits prod.splits)
qed

lemma find_all_limit_positive: "0 < n \<Longrightarrow> find_all_limit (PInt n) xs = Inr (take (nat n) xs)"
  by (cases xs) (auto simp add: find_all_limit_def max_def)

lemma search_page_ok:
  assumes "search_page e st q m = (Inr v, st')"
  shows "\<exists>resp sp divs hits.
           http_post e search_url (search_params q) = Inr resp
         \<and> parse_html e (body resp) = Inr sp
         \<and> find_all_limit m (result_divs sp) = Inr divs
         \<and> search_results e divs = Inr hits
         \<and> v = SearchOk q hits (length hits)"
  using assms by (auto simp add: search_page_def Let_def split: if_splits sum.splits)

lemma web_search_ok:
  assumes "web_search e st (PDict kvs) = (Inr (SearchOk qy hits n), st')"
  shows "\<exists>m. min_20 (get kvs ''maxResults'' (PInt 10)) = Inr m
            \<and> search_page e st qy m = (Inr (SearchOk qy hits n), st')"
proof -
  from assms obtain m where m: "min_20 (get kvs ''maxResults'' (PInt 10)) = Inr m"
    by (cases "min_20 (get kvs ''maxResults'' (PInt 10))") (auto simp add: web_search_def Let_def)
  let ?q = "get kvs ''query'' (PStr '''')"
  from assms m have "except_exception (search_page e st ?q m) = (Inr (SearchOk qy hits n), st')"
    by (auto simp add: web_search_def Let_def split: if_splits)
  then have sp: "search_page e st ?q m = (Inr (SearchOk qy hits n), st')"
    by (rule except_exception_Inr) simp
  from search_page_ok [OF sp] have "?q = qy" by auto
  with sp m show ?thesis by auto
qed

lemma search_results_replicate:
  "search_results e (replicate k example_div) = Inr (replicate k example_hit)"
  by (induction k) (simp_all add: example_div_def example_hit_def decode_redirect_def)

lemma search_example_50:
  "web_search search_world started (PDict search_params_50) =
     (Inr (SearchOk (PStr ''isabelle'') (replicate 20 example_hit) 20), after_post)"
  by (simp add: web_search_def search_params_50_def get_def min_20_def except_exception_def
      search_page_def started_eq search_world_def example_world_def example_response_def
      results_page_def find_all_limit_positive after_post_def Let_def
      search_results_replicate)

text \<open>
  What holds when \<open>maxResults\<close> is absent or a number: a missing or empty query gives
  the failure \<open>Query parameter is required\<close> and leaves the server as it was; when
  \<open>maxResults\<close> is greater than 20, a successful search has run its loop over the
  first 20 result blocks of the page and no more, and over the first 10 when
  \<open>maxResults\<close> is absent.
\<close>

lemma web_search_query_and_limit:
  assumes "numeric (get kvs ''maxResults'' (PInt 10)) = Some q"
  shows "(\<not> truthy (get kvs ''query'' (PStr ''''))
            \<longrightarrow> web_search e st (PDict kvs) = (Inr (Failure ''Query parameter is required''), st))
       \<and> (20 < q \<and> web_search e st (PDict kvs) = (Inr (SearchOk qy hits n), st')
            \<longrightarrow> (\<exists>resp sp. http_post e search_url (search_params qy) = Inr resp
                   \<and> parse_html e (body resp) = Inr sp
                   \<and> search_results e (take 20 (result_divs sp)) = Inr hits
                   \<and> n = length hits \<and> n \<le> 20))
       \<and> (map_of kvs ''maxResults'' = None
              \<and> web_search e st (PDict kvs) = (Inr (SearchOk qy hits n), st')
            \<longrightarrow> (\<exists>resp sp. http_post e search_url (search_params qy) = Inr resp
                   \<and> parse_html e (body resp) = Inr sp
                   \<and> search_results e (take 10 (result_divs sp)) = Inr hits
                   \<and> n = length hits \<and> n \<le> 10))"
proof (intro conjI impI)
  assume "\<not> truthy (get kvs ''query'' (PStr ''''))"
  with assms show "web_search e st (PDict kvs) = (Inr (Failure ''Query parameter is required''), st)"
    by (auto simp add: web_search_def min_20_def Let_def)
next
  assume h: "20 < q \<and> web_search e st (PDict kvs) = (Inr (SearchOk qy hits n), st')"
  with assms have m: "min_20 (get kvs ''maxResults'' (PInt 10)) = Inr (PInt 20)"
    by (simp add: min_20_def)
  from h web_search_ok obtain m' where "min_20 (get kvs ''maxResults'' (PInt 10)) = Inr m'"
    "search_page e st qy m' = (Inr (SearchOk qy hits n), st')" by blast
  with m have "search_page e st qy (PInt 20) = (Inr (SearchOk qy hits n), st')" by simp
  from search_page_ok [OF this] obtain resp sp where
    p: "http_post e search_url (search_params qy) = Inr resp" "parse_html e (body resp) = Inr sp"
      "search_results e (take 20 (result_divs sp)) = Inr hits" "n = length hits"
    by (auto simp add: find_all_limit_positive)
  from search_results_length [OF p(3)] p(4) have "n \<le> 20" by simp
  with p show "\<exists>resp sp. http_post e search_url (search_params qy) = Inr resp
                   \<and> parse_html e (body resp) = Inr sp
                   \<and> search_results e (take 20 (result_divs sp)) = Inr hits
                   \<and> n = length hits \<and> n \<le> 20" by blast
next
  assume h: "map_of kvs ''maxResults'' = None
              \<and> web_search e st (PDict kvs) = (Inr (SearchOk qy hits n), st')"
  then have m: "min_20 (get kvs ''maxResults'' (PInt 10)) = Inr (PInt 10)"
    by (simp add: min_20_def get_def)
  from h web_search_ok obtain m' where "min_20 (get kvs ''maxResults'' (PInt 10)) = Inr m'"
    "search_page e st qy m' = (Inr (SearchOk qy hits n), st')" by blast
  with m have "search_page e st qy (PInt 10) = (Inr (SearchOk qy hits n), st')" by simp
  from search_page_ok [OF this] obtain resp sp where
    p: "http_post e search_url (search_params qy) = Inr resp" "parse_html e (body resp) = Inr sp"
      "search_results e (take 10 (result_divs sp)) = Inr hits" "n = length hits"
    by (auto simp add: find_all_limit_positive)
  from search_results_length [OF p(3)] p(4) have "n \<le> 10" by simp
  with p show "\<exists>resp sp. http_post e search_url (search_params qy) = Inr resp
                   \<and> parse_html e (body resp) = Inr sp
                   \<and> search_results e (take 10 (result_divs sp)) = Inr hits
                   \<and> n = length hits \<and> n \<le> 10" by blast
qed

lemma web_search_query_and_limit_example:
  "numeric (get search_params_50 ''maxResults'' (PInt 10)) = Some 50
   \<and> web_search search_world started (PDict search_params_50) =
       (Inr (SearchOk (PStr ''isabelle'') (replicate 20 example_hit) 20), after_post)
   \<and> length (result_divs results_page) = 25
   \<and> numeric (get [] ''maxResults'' (PInt 10)) = Some 10
   \<and> web_search search_world started (PDict []) =
       (Inr (Failure ''Query parameter is required''), started)"
proof -
  have a: "numeric (get search_params_50 ''maxResults'' (PInt 10)) = Some 50"
    by (simp add: search_params_50_def get_def)
  have b: "numeric (get [] ''maxResults'' (PInt 10)) = Some 10"
    by (simp add: get_def)
  have c: "\<not> truthy (get [] ''query'' (PStr ''''))"
    by (simp add: get_def)
  from web_search_query_and_limit [OF b, of search_world started] c
  have "web_search search_world started (PDict []) =
       (Inr (Failure ''Query parameter is required''), started)"
    by blast
  moreover note web_search_query_and_limit [OF a, of search_world started "PStr ''isabelle''"
      "replicate 20 example_hit" 20 after_post]
  moreover have "length (result_divs results_page) = 25"
    by (simp add: results_page_def)
  ultimately show ?thesis using a b search_example_50 by simp
qed

text \<open>
  Whatever \<open>maxResults\<close> is, a call with a missing or empty query leaves the server as
  it was: nothing is sent to the network.
\<close>

lemma missing_query_no_call:
  assumes "\<not> truthy (get kvs ''query'' (PStr ''''))"
  shows "snd (web_search e st (PDict kvs)) = st"
  using assms by (simp add: web_search_def Let_def split: sum.splits)

text \<open>
  C6. With no query and \<open>maxResults\<close> \<open>null\<close>, \<open>web_search\<close> does not return the failure
  \<open>Query parameter is required\<close>: \<open>min\<close> on line 114 raises \<open>TypeError\<close> before the
  query is tested on line 116, in every world and every state of the server. The
  server is left as it was, so no request goes to the network.
\<close>

theorem web_search_no_query_raises:
  "web_search e st (PDict [(''maxResults'', PNone)]) = (Inl (not_comparable ''NoneType''), st)"
  by (simp add: web_search_def get_def min_20_def not_comparable_def)

section \<open>\<open>fetch_webpage\<close> and the cache\<close>

lemma normalize_example:
  "normalize_text (visible_text example_page) = ''Example Domain More information''"
  by (simp add: example_page_def normalize_text_def splitlines_def split_def strip_def
      isspace_def is_linebreak_def)

lemma metadata_example:
  "page_metadata example_page =
     [(''title'', MdStr ''Example Domain''), (''viewport'', MdStr ''width=device-width''),
      (''headings'', MdHeadings [''Example Domain''] [])]"
  by (simp add: example_page_def page_metadata_def meta_key_def)

lemma first_fetch_eq:
  "first_fetch =
     (Inr (FetchOk first_result),
      started\<lparr>calls := [Get (PStr ''https://example.com'')],
              cache := [''fetch:https://example.com'' \<mapsto> (seconds 1, FetchOk first_result)]\<rparr>)"
  by (simp add: first_fetch_def first_result_def started_eq fetch_webpage_def fetch_params_def
      get_def cached_def cache_key_def py_str_def fetch_page_def fetch_except_def
      example_world_def example_response_def normalize_example metadata_example Let_def
      eval_nat_numeral)

text \<open>
  The test of line 196 on an entry stored on the same day: it is served while it is
  younger than 300 seconds and set aside from then on.
\<close>

lemma cached_fresh:
  assumes "cache st key = Some (t, d)" and "cache_ttl st = 300"
    and "0 \<le> now e - t" and "now e - t < seconds 300"
  shows "cached e st key = Some d"
proof -
  have "0 \<le> (now e - t) div 1000000" using assms(3) by simp
  moreover have "(now e - t) div 1000000 < 300" using assms(4) by (simp add: seconds_def)
  ultimately have "timedelta_seconds (now e - t) < 300"
    by (simp add: timedelta_seconds_def)
  with assms(1,2) show ?thesis by (simp add: cached_def)
qed

lemma cached_expired_same_day:
  assumes "cache st key = Some (t, d)" and "cache_ttl st = 300"
    and "seconds 300 \<le> now e - t" and "now e - t < seconds 86400"
  shows "cached e st key = None"
proof -
  have "300 \<le> (now e - t) div 1000000" using assms(3) by (simp add: seconds_def)
  moreover have "(now e - t) div 1000000 < 86400" using assms(4) by (simp add: seconds_def)
  ultimately have "\<not> timedelta_seconds (now e - t) < 300"
    by (simp add: timedelta_seconds_def)
  with assms(1,2) show ?thesis by (simp add: cached_def)
qed

text \<open>
  C1. An entry older than the 300 seconds is served. The first call fetches the page
  and stores the result at second 1. One day and ten seconds later (86410 seconds,
  more than the time to live) the network is down; the call for the same address
  returns the stored result, leaves the server as it was and sends nothing to the
  network: \<open>.seconds\<close> of the age is 10.
\<close>

theorem stale_entry_served:
  "first_fetch =
     (Inr (FetchOk first_result),
      started\<lparr>calls := [Get (PStr ''https://example.com'')],
              cache := [''fetch:https://example.com'' \<mapsto> (seconds 1, FetchOk first_result)]\<rparr>)
   \<and> now next_day - seconds 1 = seconds 86410
   \<and> seconds (cache_ttl (snd first_fetch)) < now next_day - seconds 1
   \<and> timedelta_seconds (now next_day - seconds 1) = 10
   \<and> fetch_webpage next_day (snd first_fetch) (PDict fetch_params)
       = (Inr (FetchOk first_result), snd first_fetch)
   \<and> calls (snd first_fetch) = [Get (PStr ''https://example.com'')]"
proof (intro conjI)
  show "first_fetch =
     (Inr (FetchOk first_result),
      started\<lparr>calls := [Get (PStr ''https://example.com'')],
              cache := [''fetch:https://example.com'' \<mapsto> (seconds 1, FetchOk first_result)]\<rparr>)"
    by (rule first_fetch_eq)
  show "now next_day - seconds 1 = seconds 86410"
    by (simp add: next_day_def seconds_def)
  show "seconds (cache_ttl (snd first_fetch)) < now next_day - seconds 1"
    by (simp add: first_fetch_eq started_eq next_day_def seconds_def)
  show "timedelta_seconds (now next_day - seconds 1) = 10"
    by (simp add: next_day_def seconds_def timedelta_seconds_def)
  show "fetch_webpage next_day (snd first_fetch) (PDict fetch_params)
       = (Inr (FetchOk first_result), snd first_fetch)"
    by (simp add: first_fetch_eq fetch_params_def fetch_webpage_def cached_def get_def
        cache_key_def py_str_def next_day_def seconds_def timedelta_seconds_def started_eq)
  show "calls (snd first_fetch) = [Get (PStr ''https://example.com'')]"
    by (simp add: first_fetch_eq)
qed

text \<open>The three ways in which the body of the \<open>try\<close> of \<open>fetch_webpage\<close> ends.\<close>

lemma fetch_page_cases:
  "(\<exists>x. fetch_page e st url et em = (Inl x, st) \<and> \<not> session st)
   \<or> (\<exists>x. fetch_page e st url et em = (Inl x, st\<lparr>calls := calls st @ [Get url]\<rparr>)
         \<and> session st
         \<and> (http_get e url = Inl x
             \<or> (\<exists>resp. http_get e url = Inr resp \<and> parse_html e (body resp) = Inl x)))
   \<or> (\<exists>res resp sp.
         fetch_page e st url et em =
           (Inr (FetchOk res),
            st\<lparr>calls := calls st @ [Get url],
               cache := (cache st)(cache_key e url \<mapsto> (now_done e, FetchOk res))\<rparr>)
       \<and> session st \<and> http_get e url = Inr resp \<and> parse_html e (body resp) = Inr sp
       \<and> fr_url res = final_url resp
       \<and> fr_text res =
           (if truthy et then Some (take 10000 (normalize_text (visible_text sp))) else None)
       \<and> fr_text_length res =
           (if truthy et then Some (length (normalize_text (visible_text sp))) else None))"
  by (auto simp add: fetch_page_def Let_def split: sum.splits)

lemma fetch_except_cases:
  "fetch_except (Inl x, st) =
     (Inr (Failure (if kind x = TimeoutError then ''Request timeout'' else message x)), st)"
  "fetch_except (Inr v, st) = (Inr v, st)"
  by (simp_all add: fetch_except_def)

lemma fetch_webpage_miss:
  assumes "truthy (get kvs ''url'' (PStr ''''))"
    and "cached e st (cache_key e (get kvs ''url'' (PStr ''''))) = None"
  shows "fetch_webpage e st (PDict kvs) =
     fetch_except (fetch_page e st (get kvs ''url'' (PStr ''''))
       (get kvs ''extractText'' (PBool True)) (get kvs ''extractMetadata'' (PBool True)))"
  using assms by (simp add: fetch_webpage_def Let_def)

lemma fetch_webpage_failure_cache:
  assumes "fetch_webpage e st params = (r, st')" and "\<forall>v. r = Inr v \<longrightarrow> \<not> success v"
  shows "cache st' = cache st"
proof (cases params)
  case (PDict kvs)
  let ?url = "get kvs ''url'' (PStr '''')"
  show ?thesis
  proof (cases "truthy ?url")
    case False
    with assms PDict show ?thesis by (auto simp add: fetch_webpage_def)
  next
    case True
    show ?thesis
    proof (cases "cached e st (cache_key e ?url)")
      case (Some d)
      with assms PDict True show ?thesis by (auto simp add: fetch_webpage_def)
    next
      case None
      from assms(1) PDict have eq:
        "fetch_except (fetch_page e st ?url (get kvs ''extractText'' (PBool True))
           (get kvs ''extractMetadata'' (PBool True))) = (r, st')"
        by (simp add: fetch_webpage_miss [OF True None])
      from fetch_page_cases [of e st ?url "get kvs ''extractText'' (PBool True)"
          "get kvs ''extractMetadata'' (PBool True)"]
      show ?thesis using eq assms(2)
        by (auto simp add: fetch_except_cases)
    qed
  qed
qed (use assms in \<open>auto simp add: fetch_webpage_def\<close>)

lemma fetch_webpage_cache_invariant:
  assumes "fetch_webpage e st params = (r, st')"
    and "\<forall>k t d. cache st k = Some (t, d) \<longrightarrow> success d"
  shows "\<forall>k t d. cache st' k = Some (t, d) \<longrightarrow> success d"
proof (cases params)
  case (PDict kvs)
  let ?url = "get kvs ''url'' (PStr '''')"
  show ?thesis
  proof (cases "truthy ?url")
    case False
    with assms PDict show ?thesis by (auto simp add: fetch_webpage_def)
  next
    case True
    show ?thesis
    proof (cases "cached e st (cache_key e ?url)")
      case (Some d)
      with assms PDict True show ?thesis by (auto simp add: fetch_webpage_def)
    next
      case None
      from assms(1) PDict have eq:
        "fetch_except (fetch_page e st ?url (get kvs ''extractText'' (PBool True))
           (get kvs ''extractMetadata'' (PBool True))) = (r, st')"
        by (simp add: fetch_webpage_miss [OF True None])
      from fetch_page_cases [of e st ?url "get kvs ''extractText'' (PBool True)"
          "get kvs ''extractMetadata'' (PBool True)"]
      show ?thesis using eq assms(2)
        by (auto simp add: fetch_except_cases split: if_splits)
    qed
  qed
qed (use assms in \<open>auto simp add: fetch_webpage_def\<close>)

lemma fetch_webpage_timeout:
  assumes "truthy (get kvs ''url'' (PStr ''''))"
    and "cached e st (cache_key e (get kvs ''url'' (PStr ''''))) = None"
    and "session st"
    and "http_get e (get kvs ''url'' (PStr '''')) = Inl x" and "kind x = TimeoutError"
  shows "fst (fetch_webpage e st (PDict kvs)) = Inr (Failure ''Request timeout'')"
  using assms by (simp add: fetch_webpage_def Let_def fetch_page_def fetch_except_def)

lemma timed_out_fetch:
  "fetch_webpage timed_out (snd first_fetch) (PDict fetch_params)
     = (Inr (Failure ''Request timeout''),
        (snd first_fetch)\<lparr>calls := [Get (PStr ''https://example.com''),
                                      Get (PStr ''https://example.com'')]\<rparr>)"
  by (simp add: first_fetch_eq fetch_params_def fetch_webpage_def cached_def get_def
      cache_key_def py_str_def timed_out_def seconds_def timedelta_seconds_def started_eq
      fetch_page_def fetch_except_def example_world_def Let_def)

text \<open>
  C7. A call of \<open>fetch_webpage\<close> that returns a failure leaves the cache as it was; a
  cache that holds successful results only still does so after any call; and when the
  page has to be fetched and the request runs into the timeout, the result is the
  failure \<open>Request timeout\<close>.
\<close>

theorem failed_fetch_keeps_cache:
  "(fetch_webpage e st params = (Inr (Failure m), st') \<longrightarrow> cache st' = cache st)
   \<and> (fetch_webpage e st params = (r, st')
         \<and> (\<forall>k t d. cache st k = Some (t, d) \<longrightarrow> success d)
       \<longrightarrow> (\<forall>k t d. cache st' k = Some (t, d) \<longrightarrow> success d))
   \<and> (truthy (get kvs ''url'' (PStr ''''))
         \<and> cached e st (cache_key e (get kvs ''url'' (PStr ''''))) = None
         \<and> session st
         \<and> http_get e (get kvs ''url'' (PStr '''')) = Inl x \<and> kind x = TimeoutError
       \<longrightarrow> fst (fetch_webpage e st (PDict kvs)) = Inr (Failure ''Request timeout''))"
proof (intro conjI impI)
  assume "fetch_webpage e st params = (Inr (Failure m), st')"
  then show "cache st' = cache st"
    by (rule fetch_webpage_failure_cache) simp
next
  assume "fetch_webpage e st params = (r, st')
         \<and> (\<forall>k t d. cache st k = Some (t, d) \<longrightarrow> success d)"
  then show "\<forall>k t d. cache st' k = Some (t, d) \<longrightarrow> success d"
    using fetch_webpage_cache_invariant by blast
next
  assume "truthy (get kvs ''url'' (PStr ''''))
         \<and> cached e st (cache_key e (get kvs ''url'' (PStr ''''))) = None
         \<and> session st
         \<and> http_get e (get kvs ''url'' (PStr '''')) = Inl x \<and> kind x = TimeoutError"
  then show "fst (fetch_webpage e st (PDict kvs)) = Inr (Failure ''Request timeout'')"
    using fetch_webpage_timeout by blast
qed

theorem failed_fetch_keeps_cache_witness:
  "fetch_webpage timed_out (snd first_fetch) (PDict fetch_params)
     = (Inr (Failure ''Request timeout''),
        (snd first_fetch)\<lparr>calls := [Get (PStr ''https://example.com''),
                                      Get (PStr ''https://example.com'')]\<rparr>)
   \<and> cache ((snd first_fetch)\<lparr>calls := [Get (PStr ''https://example.com''),
                                          Get (PStr ''https://example.com'')]\<rparr>)
       = cache (snd first_fetch)
   \<and> cache (snd first_fetch) ''fetch:https://example.com''
       = Some (seconds 1, FetchOk first_result)
   \<and> success (FetchOk first_result)
   \<and> cached timed_out (snd first_fetch) ''fetch:https://example.com'' = None
   \<and> session (snd first_fetch)
   \<and> http_get timed_out (PStr ''https://example.com'') = Inl (Exn TimeoutError [])"
  using failed_fetch_keeps_cache [where e = timed_out and st = "snd first_fetch"
      and params = "PDict fetch_params" and m = "''Request timeout''"
      and st' = "(snd first_fetch)\<lparr>calls := [Get (PStr ''https://example.com''),
                                      Get (PStr ''https://example.com'')]\<rparr>"
      and r = "Inr (Failure ''Request timeout'')" and kvs = fetch_params
      and x = "Exn TimeoutError []"]
  by (simp add: timed_out_fetch)
     (simp add: first_fetch_eq cached_def timed_out_def example_world_def seconds_def
       timedelta_seconds_def started_eq)

lemma fetched_text:
  assumes "fetch_webpage e st (PDict kvs) = (Inr (FetchOk res), st')"
    and "cached e st (cache_key e (get kvs ''url'' (PStr ''''))) = None"
    and "truthy (get kvs ''extractText'' (PBool True))"
  shows "\<exists>resp sp.
           http_get e (get kvs ''url'' (PStr '''')) = Inr resp
         \<and> parse_html e (body resp) = Inr sp
         \<and> fr_text res = Some (take 10000 (normalize_text (visible_text sp)))
         \<and> fr_text_length res = Some (length (normalize_text (visible_text sp)))"
proof -
  let ?url = "get kvs ''url'' (PStr '''')"
  have t: "truthy ?url"
    using assms(1) by (auto simp add: fetch_webpage_def Let_def split: if_splits)
  from assms(1) have eq:
    "fetch_except (fetch_page e st ?url (get kvs ''extractText'' (PBool True))
       (get kvs ''extractMetadata'' (PBool True))) = (Inr (FetchOk res), st')"
    by (simp add: fetch_webpage_miss [OF t assms(2)])
  from fetch_page_cases [of e st ?url "get kvs ''extractText'' (PBool True)"
      "get kvs ''extractMetadata'' (PBool True)"]
  show ?thesis using eq assms(3)
    by (auto simp add: fetch_except_cases split: if_splits)
qed

text \<open>The normalization leaves a run of one character that is not white space as it is.\<close>

lemma dropWhile_replicate: "\<not> P c \<Longrightarrow> dropWhile P (replicate n c) = replicate n c"
  by (cases n) simp_all

lemma strip_replicate: "\<not> isspace c \<Longrightarrow> strip (replicate n c) = replicate n c"
  by (simp add: strip_def dropWhile_replicate)

lemma splitlines_from_replicate:
  "\<not> is_linebreak c \<Longrightarrow> 0 < n \<Longrightarrow> splitlines_from cur (replicate n c) = [cur @ replicate n c]"
proof (induction n arbitrary: cur)
  case 0
  then show ?case by simp
next
  case (Suc n)
  show ?case
  proof (cases n)
    case 0
    with Suc.prems show ?thesis by simp
  next
    case (Suc m)
    from Suc.prems(1) have "\<not> (c = CHR 0x0D \<and> c = CHR 0x0A)" by auto
    with Suc Suc.prems Suc.IH [of "cur @ [c]"] show ?thesis by simp
  qed
qed

lemma split_on_replicate:
  "c \<noteq> CHR '' '' \<Longrightarrow> split_on ''  '' cur (replicate n c) = [cur @ replicate n c]"
  by (induction n arbitrary: cur) (simp_all add: replicate_app_Cons_same)

lemma normalize_replicate:
  assumes "\<not> isspace c" and "\<not> is_linebreak c" and "c \<noteq> CHR '' ''" and "0 < n"
  shows "normalize_text (replicate n c) = replicate n c"
  using assms
  by (simp add: normalize_text_def splitlines_def split_def splitlines_from_replicate
      strip_replicate split_on_replicate)

lemma normalize_long: "normalize_text (visible_text long_page) = replicate 10001 (CHR ''x'')"
  by (simp add: long_page_def normalize_replicate isspace_def is_linebreak_def)

lemma long_fetch:
  "fetch_webpage long_world started (PDict fetch_params) =
     (Inr (FetchOk long_result),
      started\<lparr>calls := [Get (PStr ''https://example.com'')],
              cache := [''fetch:https://example.com'' \<mapsto> (seconds 1, FetchOk long_result)]\<rparr>)"
  by (simp add: long_result_def first_result_def started_eq fetch_webpage_def fetch_params_def
      get_def cached_def cache_key_def py_str_def fetch_page_def fetch_except_def long_world_def
      example_world_def example_response_def normalize_long Let_def)
     (simp add: long_page_def example_page_def page_metadata_def meta_key_def)

text \<open>
  C8. When \<open>fetch_webpage\<close> fetches a page (nothing fresh is in the cache) with
  \<open>extractText\<close> enabled and succeeds, the field \<open>text\<close> of its result is the normalized
  text of the page cut after 10000 characters, so it has at most 10000 characters and
  is a prefix of the normalized text, and \<open>textLength\<close> is the length of the whole
  normalized text.
\<close>

theorem fetched_text_truncated:
  assumes "fetch_webpage e st (PDict kvs) = (Inr (FetchOk res), st')"
    and "cached e st (cache_key e (get kvs ''url'' (PStr ''''))) = None"
    and "truthy (get kvs ''extractText'' (PBool True))"
  shows "\<exists>resp sp full.
           http_get e (get kvs ''url'' (PStr '''')) = Inr resp
         \<and> parse_html e (body resp) = Inr sp
         \<and> full = normalize_text (visible_text sp)
         \<and> fr_text res = Some (take 10000 full)
         \<and> length (take 10000 full) \<le> 10000
         \<and> prefix (take 10000 full) full
         \<and> fr_text_length res = Some (length full)"
  using fetched_text [OF assms] by (auto simp add: take_is_prefix)

theorem fetched_text_truncated_witness:
  "fetch_webpage long_world started (PDict fetch_params) =
     (Inr (FetchOk long_result),
      started\<lparr>calls := [Get (PStr ''https://example.com'')],
              cache := [''fetch:https://example.com'' \<mapsto> (seconds 1, FetchOk long_result)]\<rparr>)
   \<and> cached long_world started
       (cache_key long_world (get fetch_params ''url'' (PStr ''''))) = None
   \<and> truthy (get fetch_params ''extractText'' (PBool True))
   \<and> normalize_text (visible_text long_page) = replicate 10001 (CHR ''x'')
   \<and> fr_text long_result = Some (replicate 10000 (CHR ''x''))
   \<and> fr_text_length long_result = Some 10001"
proof -
  have b: "cached long_world started
       (cache_key long_world (get fetch_params ''url'' (PStr ''''))) = None"
    by (simp add: cached_def started_eq)
  have c: "truthy (get fetch_params ''extractText'' (PBool True))"
    by (simp add: get_def fetch_params_def)
  from fetched_text_truncated [OF long_fetch b c] long_fetch b c normalize_long
  show ?thesis by (simp add: long_result_def)
qed

section \<open>\<open>extract_links\<close>\<close>

text \<open>
  An anchor of \<open>rest\<close> that is the first one to resolve to \<open>u\<close> is still the first one
  when an anchor that resolves elsewhere is put in front.
\<close>

lemma first_anchor_later:
  assumes "\<exists>pre a' post. rest = pre @ a' # post
             \<and> urljoin e b (a_href a') = Inr u \<and> t = take 100 (a_text a')
             \<and> (\<forall>p\<in>set pre. urljoin e b (a_href p) \<noteq> Inr u)"
    and "urljoin e b (a_href a) \<noteq> Inr u"
  shows "\<exists>pre a' post. a # rest = pre @ a' # post
             \<and> urljoin e b (a_href a') = Inr u \<and> t = take 100 (a_text a')
             \<and> (\<forall>p\<in>set pre. urljoin e b (a_href p) \<noteq> Inr u)"
proof -
  from assms(1) obtain pre a' post where p: "rest = pre @ a' # post"
    "urljoin e b (a_href a') = Inr u" "t = take 100 (a_text a')"
    "\<forall>p\<in>set pre. urljoin e b (a_href p) \<noteq> Inr u"
    by blast
  with assms(2) have "a # rest = (a # pre) @ a' # post \<and> urljoin e b (a_href a') = Inr u
      \<and> t = take 100 (a_text a') \<and> (\<forall>p\<in>set (a # pre). urljoin e b (a_href p) \<noteq> Inr u)"
    by simp
  then show ?thesis by blast
qed

text \<open>
  The loop adds to \<open>links\<close> records with distinct addresses, none of them seen before,
  each from the first anchor that resolves to its address, with the text cut after
  100 characters; with both filters on it adds nothing.
\<close>

lemma collect_links_new:
  assumes "collect_links e b pb io eo as seen links = Inr res"
  shows "\<exists>new. res = links @ new \<and> distinct (map l_url new)
           \<and> (truthy io \<and> truthy eo \<longrightarrow> new = [])
           \<and> (\<forall>l\<in>set new. l_url l \<notin> seen \<and> length (l_text l) \<le> 100
                 \<and> (\<exists>pre a post. as = pre @ a # post
                       \<and> urljoin e b (a_href a) = Inr (l_url l)
                       \<and> l_text l = take 100 (a_text a)
                       \<and> (\<forall>p\<in>set pre. urljoin e b (a_href p) \<noteq> Inr (l_url l))))"
  using assms
proof (induction as arbitrary: seen links)
  case Nil
  then show ?case by simp
next
  case (Cons a rest)
  from Cons.prems obtain u where u: "urljoin e b (a_href a) = Inr u"
    by (cases "urljoin e b (a_href a)") auto
  from Cons.prems u obtain parsed where parsed: "urlparse e u = Inr parsed"
    by (cases "urlparse e u") auto
  let ?int = "netloc parsed = netloc pb"
  let ?L = "\<lparr>l_url = u, l_text = take 100 (a_text a), l_internal = ?int,
             l_protocol = scheme parsed\<rparr>"
  have step: "\<exists>new. res = links' @ new \<and> distinct (map l_url new)
           \<and> (truthy io \<and> truthy eo \<longrightarrow> new = [])
           \<and> (\<forall>l\<in>set new. l_url l \<noteq> u \<and> l_url l \<notin> seen \<and> length (l_text l) \<le> 100
                 \<and> (\<exists>pre a' post. a # rest = pre @ a' # post
                       \<and> urljoin e b (a_href a') = Inr (l_url l)
                       \<and> l_text l = take 100 (a_text a')
                       \<and> (\<forall>p\<in>set pre. urljoin e b (a_href p) \<noteq> Inr (l_url l))))"
    if rec: "collect_links e b pb io eo rest seen' links' = Inr res"
      and seen': "seen' = seen \<or> seen' = insert u seen" and known: "u \<in> seen'"
    for seen' links'
  proof -
    from Cons.IH [OF rec] obtain new where new: "res = links' @ new" "distinct (map l_url new)"
      "truthy io \<and> truthy eo \<longrightarrow> new = []"
      "\<forall>l\<in>set new. l_url l \<notin> seen' \<and> length (l_text l) \<le> 100
                 \<and> (\<exists>pre a post. rest = pre @ a # post
                       \<and> urljoin e b (a_href a) = Inr (l_url l)
                       \<and> l_text l = take 100 (a_text a)
                       \<and> (\<forall>p\<in>set pre. urljoin e b (a_href p) \<noteq> Inr (l_url l)))"
      by blast
    have "l_url l \<noteq> u \<and> l_url l \<notin> seen \<and> length (l_text l) \<le> 100
                 \<and> (\<exists>pre a' post. a # rest = pre @ a' # post
                       \<and> urljoin e b (a_href a') = Inr (l_url l)
                       \<and> l_text l = take 100 (a_text a')
                       \<and> (\<forall>p\<in>set pre. urljoin e b (a_href p) \<noteq> Inr (l_url l)))"
      if l: "l \<in> set new" for l
    proof -
      from new(4) l known have ne: "l_url l \<noteq> u" by auto
      from new(4) l seen' have "l_url l \<notin> seen" by auto
      moreover from new(4) l have "length (l_text l) \<le> 100" by auto
      moreover have "\<exists>pre a' post. a # rest = pre @ a' # post
                       \<and> urljoin e b (a_href a') = Inr (l_url l)
                       \<and> l_text l = take 100 (a_text a')
                       \<and> (\<forall>p\<in>set pre. urljoin e b (a_href p) \<noteq> Inr (l_url l))"
      proof (rule first_anchor_later)
        from new(4) l show "\<exists>pre a' post. rest = pre @ a' # post
             \<and> urljoin e b (a_href a') = Inr (l_url l) \<and> l_text l = take 100 (a_text a')
             \<and> (\<forall>p\<in>set pre. urljoin e b (a_href p) \<noteq> Inr (l_url l))"
          by blast
        from ne u show "urljoin e b (a_href a) \<noteq> Inr (l_url l)" by simp
      qed
      ultimately show ?thesis using ne by blast
    qed
    with new(1,2,3) show ?thesis by blast
  qed
  consider (seen) "u \<in> seen"
    | (skipped) "u \<notin> seen" "(truthy io \<and> \<not> ?int) \<or> (truthy eo \<and> ?int)"
    | (kept) "u \<notin> seen" "\<not> (truthy io \<and> \<not> ?int)" "\<not> (truthy eo \<and> ?int)"
    by blast
  then show ?case
  proof cases
    case seen
    with Cons.prems u parsed have "collect_links e b pb io eo rest seen links = Inr res"
      by simp
    from step [OF this] seen show ?thesis by blast
  next
    case skipped
    with Cons.prems u parsed
    have "collect_links e b pb io eo rest (insert u seen) links = Inr res"
      by (auto simp add: Let_def split: if_splits)
    from step [OF this] show ?thesis by blast
  next
    case kept
    with Cons.prems u parsed
    have "collect_links e b pb io eo rest (insert u seen) (links @ [?L]) = Inr res"
      by (auto simp add: Let_def split: if_splits)
    from step [OF this] obtain new where new: "res = (links @ [?L]) @ new"
      "distinct (map l_url new)"
      "\<forall>l\<in>set new. l_url l \<noteq> u \<and> l_url l \<notin> seen \<and> length (l_text l) \<le> 100
                 \<and> (\<exists>pre a' post. a # rest = pre @ a' # post
                       \<and> urljoin e b (a_href a') = Inr (l_url l)
                       \<and> l_text l = take 100 (a_text a')
                       \<and> (\<forall>p\<in>set pre. urljoin e b (a_href p) \<noteq> Inr (l_url l)))"
      by blast
    have "a # rest = [] @ a # rest \<and> urljoin e b (a_href a) = Inr (l_url ?L)
        \<and> l_text ?L = take 100 (a_text a)
        \<and> (\<forall>p\<in>set []. urljoin e b (a_href p) \<noteq> Inr (l_url ?L))"
      using u by simp
    then have "\<exists>pre a' post. a # rest = pre @ a' # post
                       \<and> urljoin e b (a_href a') = Inr (l_url ?L)
                       \<and> l_text ?L = take 100 (a_text a')
                       \<and> (\<forall>p\<in>set pre. urljoin e b (a_href p) \<noteq> Inr (l_url ?L))"
      by blast
    moreover have "res = links @ (?L # new)" using new(1) by simp
    moreover have "distinct (map l_url (?L # new))" using new(2,3) by auto
    moreover have "\<not> (truthy io \<and> truthy eo)" using kept by blast
    moreover have "l_url ?L \<notin> seen \<and> length (l_text ?L) \<le> 100" using kept(1) by simp
    ultimately show ?thesis using new(3)
      by (intro exI [of _ "?L # new"]) (simp del: append_Cons)
  qed
qed

lemma links_page_ok:
  assumes "links_page e st url io eo = (Inr v, st')"
  shows "\<exists>resp sp pb links.
           http_get e url = Inr resp \<and> parse_html e (body resp) = Inr sp
         \<and> urlparse e (final_url resp) = Inr pb
         \<and> collect_links e (final_url resp) pb io eo (anchors sp) {} [] = Inr links
         \<and> v = LinksOk \<lparr>lr_url = final_url resp, lr_links = links, lr_count = length links,
                         lr_internal = length (filter l_internal links),
                         lr_external = length (filter (\<lambda>l. \<not> l_internal l) links)\<rparr>"
  using assms by (auto simp add: links_page_def Let_def split: if_splits sum.splits)

text \<open>
  C4. A successful result of \<open>extract_links\<close>: the page was fetched and parsed, the
  result carries its final address, no two links have the same address, every link
  comes from the first anchor whose \<open>href\<close>, resolved against the final address of the
  page, is the address of the link, with that anchor's text cut after 100 characters,
  \<open>internal + external = count = len(links)\<close>, and \<open>count\<close> is 0 when \<open>internalOnly\<close> and
  \<open>externalOnly\<close> are both true.
\<close>

theorem extract_links_result:
  assumes "extract_links e st (PDict kvs) = (Inr (LinksOk r), st')"
  shows "\<exists>resp sp.
           http_get e (get kvs ''url'' (PStr '''')) = Inr resp
         \<and> parse_html e (body resp) = Inr sp
         \<and> lr_url r = final_url resp
         \<and> distinct (map l_url (lr_links r))
         \<and> (\<forall>l\<in>set (lr_links r).
               length (l_text l) \<le> 100
             \<and> (\<exists>pre a post.
                   anchors sp = pre @ a # post
                 \<and> urljoin e (final_url resp) (a_href a) = Inr (l_url l)
                 \<and> l_text l = take 100 (a_text a)
                 \<and> (\<forall>p\<in>set pre. urljoin e (final_url resp) (a_href p) \<noteq> Inr (l_url l))))
         \<and> lr_internal r + lr_external r = lr_count r
         \<and> lr_count r = length (lr_links r)
         \<and> (truthy (get kvs ''internalOnly'' (PBool False))
             \<and> truthy (get kvs ''externalOnly'' (PBool False)) \<longrightarrow> lr_count r = 0)"
proof -
  let ?url = "get kvs ''url'' (PStr '''')"
  let ?io = "get kvs ''internalOnly'' (PBool False)"
  let ?eo = "get kvs ''externalOnly'' (PBool False)"
  from assms have "except_exception (links_page e st ?url ?io ?eo) = (Inr (LinksOk r), st')"
    by (auto simp add: extract_links_def Let_def split: if_splits)
  then have "links_page e st ?url ?io ?eo = (Inr (LinksOk r), st')"
    by (rule except_exception_Inr) simp
  from links_page_ok [OF this] obtain resp sp pb links where
    page: "http_get e ?url = Inr resp" "parse_html e (body resp) = Inr sp"
    and loop: "collect_links e (final_url resp) pb ?io ?eo (anchors sp) {} [] = Inr links"
    and r: "r = \<lparr>lr_url = final_url resp, lr_links = links, lr_count = length links,
                 lr_internal = length (filter l_internal links),
                 lr_external = length (filter (\<lambda>l. \<not> l_internal l) links)\<rparr>"
    by auto
  from collect_links_new [OF loop] have
    links: "distinct (map l_url links)" "truthy ?io \<and> truthy ?eo \<longrightarrow> links = []"
      "\<forall>l\<in>set links. length (l_text l) \<le> 100
         \<and> (\<exists>pre a post. anchors sp = pre @ a # post
               \<and> urljoin e (final_url resp) (a_href a) = Inr (l_url l)
               \<and> l_text l = take 100 (a_text a)
               \<and> (\<forall>p\<in>set pre. urljoin e (final_url resp) (a_href p) \<noteq> Inr (l_url l)))"
    by auto
  have "lr_internal r + lr_external r = lr_count r"
    using sum_length_filter_compl [of l_internal links] by (simp add: r)
  with page links r show ?thesis by simp
qed

lemma links_example:
  "extract_links example_world started (PDict links_params) = (Inr (LinksOk example_links), after_get)"
  by (simp add: extract_links_def links_params_def get_def except_exception_def links_page_def
      started_eq example_world_def example_response_def example_page_def example_links_def
      after_get_def Let_def)

lemma links_example_both:
  "extract_links example_world started (PDict links_params_both) = (Inr (LinksOk no_links), after_get)"
  by (simp add: extract_links_def links_params_both_def get_def except_exception_def
      links_page_def started_eq example_world_def example_response_def example_page_def
      no_links_def after_get_def Let_def)

theorem extract_links_result_witness:
  "extract_links example_world started (PDict links_params) = (Inr (LinksOk example_links), after_get)
   \<and> map l_url (lr_links example_links)
       = [''https://example.com/about'', ''https://www.iana.org/domains'']
   \<and> map (\<lambda>l. length (l_text l)) (lr_links example_links) = [100, 4]
   \<and> lr_internal example_links + lr_external example_links = lr_count example_links
   \<and> lr_count example_links = length (lr_links example_links)
   \<and> extract_links example_world started (PDict links_params_both)
       = (Inr (LinksOk no_links), after_get)
   \<and> truthy (get links_params_both ''internalOnly'' (PBool False))
   \<and> truthy (get links_params_both ''externalOnly'' (PBool False))
   \<and> lr_count no_links = 0"
  using extract_links_result [OF links_example] extract_links_result [OF links_example_both]
  by (simp add: links_example links_example_both)
     (simp add: example_links_def no_links_def links_params_both_def get_def)

section \<open>\<open>scrape_data\<close>\<close>

text \<open>
  The loop over the items of \<open>selectors\<close>, whose keys are distinct: afterwards a key
  of \<open>selectors\<close> holds what its turn assigned, or what it held before when the turn
  assigned nothing, and the other keys are as before.
\<close>

lemma scrape_fields_lookup:
  assumes "scrape_fields sp items data = Inr res" and "distinct (map fst items)"
  shows "(\<forall>k cfg. (k, cfg) \<in> set items \<longrightarrow> (\<exists>v. scrape_field sp cfg = Inr v
            \<and> map_of res k = (case v of None \<Rightarrow> map_of data k | Some y \<Rightarrow> Some y)))
       \<and> (\<forall>k. k \<notin> fst ` set items \<longrightarrow> map_of res k = map_of data k)
       \<and> (distinct (map fst data) \<longrightarrow> distinct (map fst res))"
  using assms
proof (induction items arbitrary: data)
  case Nil
  then show ?case by simp
next
  case (Cons item rest)
  obtain key cfg where item: "item = (key, cfg)" by (cases item)
  from Cons.prems(1) item obtain v0 where v0: "scrape_field sp cfg = Inr v0"
    by (cases "scrape_field sp cfg") auto
  let ?data' = "case v0 of None \<Rightarrow> data | Some y \<Rightarrow> AList.update key y data"
  from Cons.prems(1) item v0 have rec: "scrape_fields sp rest ?data' = Inr res"
    by (cases v0) auto
  from Cons.prems(2) item have d: "distinct (map fst rest)" and fresh: "key \<notin> fst ` set rest"
    by auto
  note IH = Cons.IH [OF rec d]
  have key: "map_of res key = (case v0 of None \<Rightarrow> map_of data key | Some y \<Rightarrow> Some y)"
    using IH fresh by (cases v0) (auto simp add: update_conv')
  have others: "\<forall>k c. (k, c) \<in> set rest \<longrightarrow> (\<exists>v. scrape_field sp c = Inr v
            \<and> map_of res k = (case v of None \<Rightarrow> map_of data k | Some y \<Rightarrow> Some y))"
  proof (intro allI impI)
    fix k c assume kc: "(k, c) \<in> set rest"
    with fresh have "k \<noteq> key" by force
    then have same: "map_of ?data' k = map_of data k"
      by (cases v0) (auto simp add: update_conv')
    from IH kc obtain v where v: "scrape_field sp c = Inr v"
      "map_of res k = (case v of None \<Rightarrow> map_of ?data' k | Some y \<Rightarrow> Some y)"
      by blast
    from v(2) same have "map_of res k = (case v of None \<Rightarrow> map_of data k | Some y \<Rightarrow> Some y)"
      by (cases v) auto
    with v(1) show "\<exists>v. scrape_field sp c = Inr v
            \<and> map_of res k = (case v of None \<Rightarrow> map_of data k | Some y \<Rightarrow> Some y)"
      by blast
  qed
  have outside: "\<forall>k. k \<notin> fst ` set (item # rest) \<longrightarrow> map_of res k = map_of data k"
  proof (intro allI impI)
    fix k assume "k \<notin> fst ` set (item # rest)"
    with item have "k \<noteq> key" "k \<notin> fst ` set rest" by auto
    moreover from \<open>k \<noteq> key\<close> have "map_of ?data' k = map_of data k"
      by (cases v0) (auto simp add: update_conv')
    ultimately show "map_of res k = map_of data k" using IH by auto
  qed
  have dist: "distinct (map fst data) \<longrightarrow> distinct (map fst res)"
  proof
    assume "distinct (map fst data)"
    then have "distinct (map fst ?data')"
      by (cases v0) (auto simp add: distinct_update)
    with IH show "distinct (map fst res)" by blast
  qed
  from key others outside dist v0 item show ?case by auto
qed

lemma scrape_page_ok:
  assumes "scrape_page e st url selectors = (Inr v, st')"
  shows "\<exists>resp sp items scraped.
           http_get e url = Inr resp \<and> parse_html e (body resp) = Inr sp
         \<and> selectors = PDict items \<and> scrape_fields sp items [] = Inr scraped
         \<and> v = ScrapeOk \<lparr>sc_url = url, sc_data = scraped,
                          sc_fields_extracted = length scraped\<rparr>"
  using assms
  by (auto simp add: scrape_page_def Let_def split: if_splits sum.splits pyval.splits)

lemma scrape_field_no_match:
  "scrape_field sp (PStr s) = Inr v \<Longrightarrow> select sp (PStr s) = Inr [] \<Longrightarrow> v = None"
  "scrape_field sp (PDict c) = Inr v \<Longrightarrow> select sp (get c ''selector'' (PStr '''')) = Inr []
     \<Longrightarrow> v = None"
  by (auto simp add: scrape_field_def Let_def)

lemma scrape_field_single:
  assumes "scrape_field sp (PDict c) = Inr v"
    and "truthy (get c ''single'' (PBool False))"
    and "select sp (get c ''selector'' (PStr '''')) = Inr elements" and "elements \<noteq> []"
    and "field_values (get c ''attribute'' PNone) elements = Inr vals" and "vals \<noteq> []"
  shows "v = Some (hd vals)"
  using assms by (auto simp add: scrape_field_def Let_def)

lemma scrape_example:
  "scrape_data example_world started (PDict scrape_params) = (Inr (ScrapeOk example_scrape), after_get)"
  by (simp add: scrape_data_def scrape_params_def scrape_selectors_def get_def
      except_exception_def scrape_page_def scrape_field_def field_values_def texts_def
      elem_get_def started_eq example_world_def example_response_def example_page_def
      example_scrape_def after_get_def Let_def)

text \<open>
  C5, as the claim states it, fails. The field \<open>id\<close> is given in record form with
  \<open>single\<close> true, its selector \<open>a\<close> matches two elements, and its value in \<open>data\<close> is the
  empty list, not a scalar: no matched element has the attribute \<open>data-id\<close>, so
  \<open>values\<close> is empty and the guard \<open>single and values\<close> of line 378 keeps the list.
\<close>

theorem single_field_is_sequence:
  "select example_page (PStr ''a'') =
     Inr [\<lparr>el_text = ''About'', el_attrs = [(''href'', PStr ''/about'')]\<rparr>,
          \<lparr>el_text = ''More'', el_attrs = [(''href'', PStr ''https://www.iana.org/domains'')]\<rparr>]
   \<and> get scrape_params_data_id ''selectors'' (PDict []) =
       PDict [(''id'', PDict [(''selector'', PStr ''a''), (''attribute'', PStr ''data-id''),
                              (''single'', PBool True)])]
   \<and> scrape_data example_world started (PDict scrape_params_data_id) =
       (Inr (ScrapeOk \<lparr>sc_url = PStr ''https://example.com'', sc_data = [(''id'', PList [])],
                        sc_fields_extracted = 1\<rparr>),
        after_get)"
  by (simp add: scrape_data_def scrape_params_data_id_def get_def
      except_exception_def scrape_page_def scrape_field_def field_values_def texts_def
      elem_get_def started_eq example_world_def example_response_def example_page_def
      after_get_def Let_def)

text \<open>
  C5, amended. A successful result of \<open>scrape_data\<close> on distinct field names: the page
  was fetched and parsed; \<open>fieldsExtracted\<close> is the length of \<open>data\<close> and the number of
  its keys; a field whose selector, bare or in record form, matches no element is not
  a key of \<open>data\<close>; and a field in record form with \<open>single\<close> true, whose selector
  matches at least one element and for which at least one value is extracted (the
  texts of the matched elements, or their non-empty values of the named attribute),
  has the first extracted value in \<open>data\<close>, not the list of values; with no
  attribute named this is the text of the first matched element, a string.
\<close>

theorem scrape_data_result:
  assumes "scrape_data e st (PDict kvs) = (Inr (ScrapeOk r), st')"
    and "get kvs ''selectors'' (PDict []) = PDict items"
    and "distinct (map fst items)"
  shows "\<exists>resp sp.
           http_get e (get kvs ''url'' (PStr '''')) = Inr resp
         \<and> parse_html e (body resp) = Inr sp
         \<and> sc_fields_extracted r = length (sc_data r)
         \<and> sc_fields_extracted r = card (fst ` set (sc_data r))
         \<and> (\<forall>(k, cfg)\<in>set items.
               (\<forall>s. cfg = PStr s \<and> select sp (PStr s) = Inr []
                    \<longrightarrow> k \<notin> fst ` set (sc_data r))
             \<and> (\<forall>c. cfg = PDict c \<and> select sp (get c ''selector'' (PStr '''')) = Inr []
                    \<longrightarrow> k \<notin> fst ` set (sc_data r))
             \<and> (\<forall>c elements vals.
                    cfg = PDict c \<and> truthy (get c ''single'' (PBool False))
                  \<and> select sp (get c ''selector'' (PStr '''')) = Inr elements
                  \<and> elements \<noteq> []
                  \<and> field_values (get c ''attribute'' PNone) elements = Inr vals
                  \<and> vals \<noteq> []
                    \<longrightarrow> map_of (sc_data r) k = Some (hd vals))
             \<and> (\<forall>c elements.
                    cfg = PDict c \<and> truthy (get c ''single'' (PBool False))
                  \<and> \<not> truthy (get c ''attribute'' PNone)
                  \<and> select sp (get c ''selector'' (PStr '''')) = Inr elements
                  \<and> elements \<noteq> []
                    \<longrightarrow> map_of (sc_data r) k = Some (PStr (el_text (hd elements)))))"
proof -
  let ?url = "get kvs ''url'' (PStr '''')"
  from assms(1,2)
  have "except_exception (scrape_page e st ?url (PDict items)) = (Inr (ScrapeOk r), st')"
    by (auto simp add: scrape_data_def Let_def split: if_splits)
  then have "scrape_page e st ?url (PDict items) = (Inr (ScrapeOk r), st')"
    by (rule except_exception_Inr) simp
  from scrape_page_ok [OF this] obtain resp sp scraped where
    page: "http_get e ?url = Inr resp" "parse_html e (body resp) = Inr sp"
    and loop: "scrape_fields sp items [] = Inr scraped"
    and r: "r = \<lparr>sc_url = ?url, sc_data = scraped, sc_fields_extracted = length scraped\<rparr>"
    by auto
  note chars = scrape_fields_lookup [OF loop assms(3)]
  have look: "scrape_field sp cfg = Inr (map_of scraped k)" if "(k, cfg) \<in> set items" for k cfg
  proof -
    from chars that obtain v where v: "scrape_field sp cfg = Inr v"
      "map_of scraped k = (case v of None \<Rightarrow> map_of [] k | Some y \<Rightarrow> Some y)"
      by blast
    from v(2) have "map_of scraped k = v" by (cases v) auto
    with v(1) show ?thesis by simp
  qed
  from chars have dist: "distinct (map fst scraped)" by simp
  have card: "length scraped = card (fst ` set scraped)"
    using distinct_card [OF dist] by simp
  have fields: "\<forall>(k, cfg)\<in>set items.
               (\<forall>s. cfg = PStr s \<and> select sp (PStr s) = Inr [] \<longrightarrow> k \<notin> fst ` set scraped)
             \<and> (\<forall>c. cfg = PDict c \<and> select sp (get c ''selector'' (PStr '''')) = Inr []
                    \<longrightarrow> k \<notin> fst ` set scraped)
             \<and> (\<forall>c elements vals.
                    cfg = PDict c \<and> truthy (get c ''single'' (PBool False))
                  \<and> select sp (get c ''selector'' (PStr '''')) = Inr elements
                  \<and> elements \<noteq> []
                  \<and> field_values (get c ''attribute'' PNone) elements = Inr vals
                  \<and> vals \<noteq> []
                    \<longrightarrow> map_of scraped k = Some (hd vals))
             \<and> (\<forall>c elements.
                    cfg = PDict c \<and> truthy (get c ''single'' (PBool False))
                  \<and> \<not> truthy (get c ''attribute'' PNone)
                  \<and> select sp (get c ''selector'' (PStr '''')) = Inr elements
                  \<and> elements \<noteq> []
                    \<longrightarrow> map_of scraped k = Some (PStr (el_text (hd elements))))"
  proof (clarify, intro conjI allI impI)
    fix k cfg s
    assume kc: "(k, cfg) \<in> set items" and h: "cfg = PStr s \<and> select sp (PStr s) = Inr []"
    from look [OF kc] have "scrape_field sp cfg = Inr (map_of scraped k)" .
    with h have "map_of scraped k = None" using scrape_field_no_match(1) by blast
    then show "k \<notin> fst ` set scraped" by (simp add: map_of_eq_None_iff)
  next
    fix k cfg c
    assume kc: "(k, cfg) \<in> set items"
      and h: "cfg = PDict c \<and> select sp (get c ''selector'' (PStr '''')) = Inr []"
    from look [OF kc] have "scrape_field sp cfg = Inr (map_of scraped k)" .
    with h have "map_of scraped k = None" using scrape_field_no_match(2) by blast
    then show "k \<notin> fst ` set scraped" by (simp add: map_of_eq_None_iff)
  next
    fix k cfg c elements vals
    assume kc: "(k, cfg) \<in> set items"
      and h: "cfg = PDict c \<and> truthy (get c ''single'' (PBool False))
                  \<and> select sp (get c ''selector'' (PStr '''')) = Inr elements
                  \<and> elements \<noteq> []
                  \<and> field_values (get c ''attribute'' PNone) elements = Inr vals
                  \<and> vals \<noteq> []"
    from look [OF kc] have "scrape_field sp cfg = Inr (map_of scraped k)" .
    with h show "map_of scraped k = Some (hd vals)" using scrape_field_single by blast
  next
    fix k cfg c elements
    assume kc: "(k, cfg) \<in> set items"
      and h: "cfg = PDict c \<and> truthy (get c ''single'' (PBool False))
                  \<and> \<not> truthy (get c ''attribute'' PNone)
                  \<and> select sp (get c ''selector'' (PStr '''')) = Inr elements
                  \<and> elements \<noteq> []"
    from look [OF kc] have f: "scrape_field sp cfg = Inr (map_of scraped k)" .
    from h have v: "field_values (get c ''attribute'' PNone) elements = Inr (texts elements)"
      "texts elements \<noteq> []" "hd (texts elements) = PStr (el_text (hd elements))"
      by (simp_all add: field_values_def texts_def hd_map)
    from scrape_field_single [of sp c "map_of scraped k" elements "texts elements"] f h v
    show "map_of scraped k = Some (PStr (el_text (hd elements)))" by simp
  qed
  from page card fields show ?thesis by (simp add: r)
qed

theorem scrape_data_result_witness:
  "scrape_data example_world started (PDict scrape_params)
     = (Inr (ScrapeOk example_scrape), after_get)
   \<and> get scrape_params ''selectors'' (PDict []) = PDict scrape_selectors
   \<and> distinct (map fst scrape_selectors)
   \<and> sc_fields_extracted example_scrape = 3
   \<and> card (fst ` set (sc_data example_scrape)) = 3
   \<and> select example_page (PStr ''table'') = Inr []
   \<and> ''tables'' \<notin> fst ` set (sc_data example_scrape)
   \<and> field_values PNone [\<lparr>el_text = ''Example Domain'', el_attrs = []\<rparr>]
       = Inr [PStr ''Example Domain'']
   \<and> map_of (sc_data example_scrape) ''heading'' = Some (PStr ''Example Domain'')
   \<and> map_of (sc_data example_scrape) ''target'' = Some (PStr ''/about'')"
proof -
  have a: "scrape_data example_world started (PDict scrape_params)
     = (Inr (ScrapeOk example_scrape), after_get)"
    by (rule scrape_example)
  have b: "get scrape_params ''selectors'' (PDict []) = PDict scrape_selectors"
    by (simp add: scrape_params_def get_def)
  have c: "distinct (map fst scrape_selectors)"
    by (simp add: scrape_selectors_def)
  from scrape_data_result [OF a b c]
  have "sc_fields_extracted example_scrape = card (fst ` set (sc_data example_scrape))"
    by blast
  moreover have "sc_fields_extracted example_scrape = 3"
    by (simp add: example_scrape_def)
  moreover have "select example_page (PStr ''table'') = Inr []"
    by (simp add: example_page_def)
  moreover have "''tables'' \<notin> fst ` set (sc_data example_scrape)"
    by (simp add: example_scrape_def)
  moreover have "field_values PNone [\<lparr>el_text = ''Example Domain'', el_attrs = []\<rparr>]
       = Inr [PStr ''Example Domain'']"
    by (simp add: field_values_def texts_def)
  moreover have "map_of (sc_data example_scrape) ''heading'' = Some (PStr ''Example Domain'')"
    "map_of (sc_data example_scrape) ''target'' = Some (PStr ''/about'')"
    by (simp_all add: example_scrape_def)
  ultimately show ?thesis using a b c by simp
qed

end
